theory Spec2Isabelle
  imports Main
begin

section \<open>Strings\<close>

text \<open>
  The calendar engine of \<^verbatim>\<open>functions/calendar.js\<close> works on JavaScript strings. They are
  modelled as \<^typ>\<open>string\<close>; every pattern of the source is ASCII, and the feed is read as
  a sequence of 8-bit characters.
\<close>

definition backslash :: char where
  "backslash = CHR 0x5C"

definition LF :: char where
  "LF = CHR 0x0A"

definition CR :: char where
  "CR = CHR 0x0D"

definition TAB :: char where
  "TAB = CHR 0x09"

definition dquote :: char where
  "dquote = CHR 0x22"

text \<open>\<^verbatim>\<open>s.startsWith(p)\<close>\<close>

definition startsWith :: "string \<Rightarrow> string \<Rightarrow> bool" where
  "startsWith s p = (take (length p) s = p)"

text \<open>\<^verbatim>\<open>s.substr(i, n)\<close> for non-negative \<open>i\<close> and \<open>n\<close>\<close>

definition substr :: "string \<Rightarrow> nat \<Rightarrow> nat \<Rightarrow> string" where
  "substr s i n = take n (drop i s)"

text \<open>
  \<^verbatim>\<open>s.replace(/p/g, r)\<close> for a literal, non-empty pattern \<open>p\<close>: the matches are found
  from left to right and do not overlap; the replacement text is not scanned again.
\<close>

function replaceAll :: "string \<Rightarrow> string \<Rightarrow> string \<Rightarrow> string" where
  "replaceAll p r [] = []"
| "replaceAll p r (c # cs) =
     (if p \<noteq> [] \<and> startsWith (c # cs) p
      then r @ replaceAll p r (drop (length p) (c # cs))
      else c # replaceAll p r cs)"
  by pat_completeness auto
termination
  by (relation "measure (\<lambda>(p, r, s). length s)") auto

text \<open>The ASCII members of the regular-expression classes \<^verbatim>\<open>\d\<close> and \<^verbatim>\<open>\s\<close>.\<close>

definition isDigit :: "char \<Rightarrow> bool" where
  "isDigit c = (c \<in> set ''0123456789'')"

definition allDigits :: "string \<Rightarrow> bool" where
  "allDigits s = list_all isDigit s"

definition isSpace :: "char \<Rightarrow> bool" where
  "isSpace c = (c \<in> set [CHR '' '', CHR 0x09, CHR 0x0A, CHR 0x0B, CHR 0x0C, CHR 0x0D])"

text \<open>\<^verbatim>\<open>s.trim()\<close>\<close>

definition trim :: "string \<Rightarrow> string" where
  "trim s = rev (dropWhile isSpace (rev (dropWhile isSpace s)))"

text \<open>\<^verbatim>\<open>s.split(c)\<close> for a one-character separator: always at least one piece.\<close>

fun splitOn :: "char \<Rightarrow> string \<Rightarrow> string list" where
  "splitOn c [] = [[]]"
| "splitOn c (x # xs) =
     (if x = c then [] # splitOn c xs
      else (case splitOn c xs of [] \<Rightarrow> [[x]] | p # ps \<Rightarrow> (x # p) # ps))"

text \<open>\<^verbatim>\<open>s.split(c)[0]\<close>\<close>

definition splitHead :: "char \<Rightarrow> string \<Rightarrow> string" where
  "splitHead c s = takeWhile (\<lambda>x. x \<noteq> c) s"

section \<open>Numbers\<close>

text \<open>
  JavaScript numbers are modelled as integers, \<open>None\<close> standing for \<^verbatim>\<open>NaN\<close>; the
  integers the engine computes with are exact as doubles up to \<open>2^53\<close>.
\<close>

definition digitVal :: "char \<Rightarrow> nat" where
  "digitVal c = of_char c - 48"

definition decVal :: "string \<Rightarrow> nat" where
  "decVal s = foldl (\<lambda>acc c. 10 * acc + digitVal c) 0 s"

definition isHexDigit :: "char \<Rightarrow> bool" where
  "isHexDigit c = (c \<in> set ''0123456789abcdefABCDEF'')"

definition hexDigitVal :: "char \<Rightarrow> nat" where
  "hexDigitVal c =
     (if isDigit c then of_char c - 48
      else if c \<in> set ''abcdef'' then of_char c - 87
      else of_char c - 55)"

definition hexVal :: "string \<Rightarrow> nat" where
  "hexVal s = foldl (\<lambda>acc c. 16 * acc + hexDigitVal c) 0 s"

text \<open>
  \<^verbatim>\<open>parseInt(s)\<close> with no radix: leading white space, an optional sign, then the longest
  run of decimal digits (hexadecimal digits after \<^verbatim>\<open>0x\<close>); \<^verbatim>\<open>NaN\<close> when there is no digit.
\<close>

definition parseInt :: "string \<Rightarrow> int option" where
  "parseInt s =
     (let s1 = dropWhile isSpace s;
          sgn = (if startsWith s1 ''-'' then - 1 else (1::int));
          s2 = (if startsWith s1 ''-'' \<or> startsWith s1 ''+'' then drop 1 s1 else s1)
      in if startsWith s2 ''0x'' \<or> startsWith s2 ''0X''
         then (let ds = takeWhile isHexDigit (drop 2 s2)
               in if ds = [] then None else Some (sgn * int (hexVal ds)))
         else (let ds = takeWhile isDigit s2
               in if ds = [] then None else Some (sgn * int (decVal ds))))"

definition digitChar :: "nat \<Rightarrow> char" where
  "digitChar n = ''0123456789'' ! n"

fun digitsOf :: "nat \<Rightarrow> string" where
  "digitsOf n = (if n < 10 then [digitChar n] else digitsOf (n div 10) @ [digitChar (n mod 10)])"

declare digitsOf.simps [simp del]

text \<open>\<^verbatim>\<open>String(n).padStart(k, '0')\<close>\<close>

definition pad :: "nat \<Rightarrow> int \<Rightarrow> string" where
  "pad k n = (let ds = digitsOf (nat n) in replicate (k - length ds) (CHR ''0'') @ ds)"

section \<open>The host's Date object\<close>

text \<open>
  Time values are milliseconds since the epoch; an invalid Date (time value \<^verbatim>\<open>NaN\<close>) is
  \<open>None\<close>. The day and calendar arithmetic is that of the ECMAScript specification
  (Day, TimeWithinDay, DayFromYear, YearFromTime, MonthFromTime, DateFromTime, WeekDay,
  MakeTime, MakeDay, MakeDate, TimeClip).
\<close>

definition msPerDay :: int where
  "msPerDay = 86400000"

definition Day :: "int \<Rightarrow> int" where
  "Day t = t div msPerDay"

definition TimeWithinDay :: "int \<Rightarrow> int" where
  "TimeWithinDay t = t mod msPerDay"

definition isLeap :: "int \<Rightarrow> bool" where
  "isLeap y = (y mod 4 = 0 \<and> (y mod 100 \<noteq> 0 \<or> y mod 400 = 0))"

definition DayFromYear :: "int \<Rightarrow> int" where
  "DayFromYear y = 365 * (y - 1970) + (y - 1969) div 4 - (y - 1901) div 100 + (y - 1601) div 400"

text \<open>
  YearFromTime: the largest year whose first day is not after the day of \<open>t\<close>. The
  estimate from the mean year length is at most one year off and is corrected against
  \<open>DayFromYear\<close>.
\<close>

definition YearFromTime :: "int \<Rightarrow> int" where
  "YearFromTime t =
     (let d = Day t; y = 1970 + (d * 10000) div 3652425
      in if DayFromYear (y + 1) \<le> d then y + 1
         else if DayFromYear y \<le> d then y
         else y - 1)"

definition DayWithinYear :: "int \<Rightarrow> int" where
  "DayWithinYear t = Day t - DayFromYear (YearFromTime t)"

text \<open>Days of the year before month \<open>m\<close> (January is 0).\<close>

definition daysBeforeMonth :: "int \<Rightarrow> bool \<Rightarrow> int" where
  "daysBeforeMonth m leap =
     (if m \<le> 0 then 0
      else if m = 1 then 31
      else (if leap then 1 else 0) +
        (if m = 2 then 59 else if m = 3 then 90 else if m = 4 then 120
         else if m = 5 then 151 else if m = 6 then 181 else if m = 7 then 212
         else if m = 8 then 243 else if m = 9 then 273 else if m = 10 then 304
         else 334))"

definition MonthFromTime :: "int \<Rightarrow> int" where
  "MonthFromTime t =
     (let d = DayWithinYear t; l = (if isLeap (YearFromTime t) then 1 else 0)
      in if d < 31 then 0 else if d < 59 + l then 1 else if d < 90 + l then 2
         else if d < 120 + l then 3 else if d < 151 + l then 4 else if d < 181 + l then 5
         else if d < 212 + l then 6 else if d < 243 + l then 7 else if d < 273 + l then 8
         else if d < 304 + l then 9 else if d < 334 + l then 10 else 11)"

definition DateFromTime :: "int \<Rightarrow> int" where
  "DateFromTime t =
     DayWithinYear t + 1 - daysBeforeMonth (MonthFromTime t) (isLeap (YearFromTime t))"

definition WeekDay :: "int \<Rightarrow> int" where
  "WeekDay t = (Day t + 4) mod 7"

definition HourFromTime :: "int \<Rightarrow> int" where
  "HourFromTime t = (t div 3600000) mod 24"

definition MinFromTime :: "int \<Rightarrow> int" where
  "MinFromTime t = (t div 60000) mod 60"

definition SecFromTime :: "int \<Rightarrow> int" where
  "SecFromTime t = (t div 1000) mod 60"

definition msFromTime :: "int \<Rightarrow> int" where
  "msFromTime t = t mod 1000"

definition MakeTime :: "int \<Rightarrow> int \<Rightarrow> int \<Rightarrow> int \<Rightarrow> int" where
  "MakeTime hh mm ss ms = hh * 3600000 + mm * 60000 + ss * 1000 + ms"

definition MakeDay :: "int \<Rightarrow> int \<Rightarrow> int \<Rightarrow> int" where
  "MakeDay y m dt =
     (let ym = y + m div 12; mn = m mod 12
      in DayFromYear ym + daysBeforeMonth mn (isLeap ym) + dt - 1)"

definition MakeDate :: "int \<Rightarrow> int \<Rightarrow> int" where
  "MakeDate day time = day * msPerDay + time"

definition TimeClip :: "int \<Rightarrow> int option" where
  "TimeClip t = (if \<bar>t\<bar> \<le> 8640000000000000 then Some t else None)"

definition daysInMonth :: "int \<Rightarrow> int \<Rightarrow> int" where
  "daysInMonth y m =
     (if m = 2 then (if isLeap y then 29 else 28)
      else if m = 4 \<or> m = 6 \<or> m = 9 \<or> m = 11 then 30 else 31)"

text \<open>
  What the engine takes from its host: the local zone, here with a fixed offset \<open>tza\<close>
  from UTC in milliseconds (no daylight-saving changes; 0 on a host running in UTC);
  \<^verbatim>\<open>Date.parse\<close> on the strings that are not a valid calendar date in one of the three ISO
  shapes below, where ECMAScript leaves the result to the implementation; the named-zone
  conversion of \<^verbatim>\<open>toLocaleString\<close> (the difference \<^verbatim>\<open>utcDate - localDate\<close> that
  \<^verbatim>\<open>formatDateToISO\<close> computes, \<open>None\<close> when the zone name is rejected or a rendering does
  not parse back); and the wall clock \<^verbatim>\<open>Date.now()\<close>, read once.
\<close>

record host =
  tza :: int
  legacy_parse :: "string \<Rightarrow> int option"
  zone_shift :: "string \<Rightarrow> int \<Rightarrow> int option"
  now :: int

definition LocalTime :: "host \<Rightarrow> int \<Rightarrow> int" where
  "LocalTime h t = t + tza h"

definition UTC :: "host \<Rightarrow> int \<Rightarrow> int" where
  "UTC h t = t - tza h"

text \<open>The shapes \<^verbatim>\<open>YYYY-MM-DD\<close>, \<^verbatim>\<open>YYYY-MM-DDTHH:MM:SS\<close> and \<^verbatim>\<open>YYYY-MM-DDTHH:MM:SSZ\<close>.\<close>

definition isDateForm :: "string \<Rightarrow> bool" where
  "isDateForm s =
     (length s = 10 \<and> allDigits (substr s 0 4) \<and> substr s 4 1 = ''-'' \<and>
      allDigits (substr s 5 2) \<and> substr s 7 1 = ''-'' \<and> allDigits (substr s 8 2))"

definition isLocalForm :: "string \<Rightarrow> bool" where
  "isLocalForm s =
     (length s = 19 \<and> isDateForm (take 10 s) \<and> substr s 10 1 = ''T'' \<and>
      allDigits (substr s 11 2) \<and> substr s 13 1 = '':'' \<and>
      allDigits (substr s 14 2) \<and> substr s 16 1 = '':'' \<and> allDigits (substr s 17 2))"

definition isUTCForm :: "string \<Rightarrow> bool" where
  "isUTCForm s = (length s = 20 \<and> isLocalForm (take 19 s) \<and> substr s 19 1 = ''Z'')"

definition validYMD :: "string \<Rightarrow> bool" where
  "validYMD s =
     (let y = int (decVal (substr s 0 4)); m = int (decVal (substr s 5 2));
          d = int (decVal (substr s 8 2))
      in 1 \<le> m \<and> m \<le> 12 \<and> 1 \<le> d \<and> d \<le> daysInMonth y m)"

definition validHMS :: "string \<Rightarrow> bool" where
  "validHMS s =
     (decVal (substr s 11 2) \<le> 23 \<and> decVal (substr s 14 2) \<le> 59 \<and> decVal (substr s 17 2) \<le> 59)"

definition dayOfYMD :: "string \<Rightarrow> int" where
  "dayOfYMD s =
     MakeDay (int (decVal (substr s 0 4))) (int (decVal (substr s 5 2)) - 1)
       (int (decVal (substr s 8 2)))"

definition timeOfHMS :: "string \<Rightarrow> int" where
  "timeOfHMS s =
     MakeTime (int (decVal (substr s 11 2))) (int (decVal (substr s 14 2)))
       (int (decVal (substr s 17 2))) 0"

text \<open>
  \<^verbatim>\<open>Date.parse(s)\<close>: a date-only string is UTC midnight, a date-time with \<^verbatim>\<open>Z\<close> is UTC,
  a date-time without offset is local time; everything else is the host's.
\<close>

definition dateParse :: "host \<Rightarrow> string \<Rightarrow> int option" where
  "dateParse h s =
     (if isDateForm s \<and> validYMD s then Some (MakeDate (dayOfYMD s) 0)
      else if isUTCForm s \<and> validYMD s \<and> validHMS s
        then Some (MakeDate (dayOfYMD s) (timeOfHMS s))
      else if isLocalForm s \<and> validYMD s \<and> validHMS s
        then Some (UTC h (MakeDate (dayOfYMD s) (timeOfHMS s)))
      else legacy_parse h s)"

text \<open>\<^verbatim>\<open>new Date(s)\<close>\<close>

definition newDate :: "host \<Rightarrow> string \<Rightarrow> int option" where
  "newDate h s = Option.bind (dateParse h s) TimeClip"

text \<open>The local-time getters; \<^verbatim>\<open>NaN\<close> on an invalid Date.\<close>

definition getFullYear :: "host \<Rightarrow> int option \<Rightarrow> int option" where
  "getFullYear h d = map_option (\<lambda>t. YearFromTime (LocalTime h t)) d"

definition getMonth :: "host \<Rightarrow> int option \<Rightarrow> int option" where
  "getMonth h d = map_option (\<lambda>t. MonthFromTime (LocalTime h t)) d"

definition getDate :: "host \<Rightarrow> int option \<Rightarrow> int option" where
  "getDate h d = map_option (\<lambda>t. DateFromTime (LocalTime h t)) d"

definition getDay :: "host \<Rightarrow> int option \<Rightarrow> int option" where
  "getDay h d = map_option (\<lambda>t. WeekDay (LocalTime h t)) d"

definition getHours :: "host \<Rightarrow> int option \<Rightarrow> int option" where
  "getHours h d = map_option (\<lambda>t. HourFromTime (LocalTime h t)) d"

definition getMinutes :: "host \<Rightarrow> int option \<Rightarrow> int option" where
  "getMinutes h d = map_option (\<lambda>t. MinFromTime (LocalTime h t)) d"

text \<open>
  The local-time setters, each returning the new time value of the Date it mutates. A
  \<^verbatim>\<open>NaN\<close> argument or an invalid Date gives an invalid Date (\<^verbatim>\<open>setFullYear\<close> is only
  called on valid Dates here).
\<close>

definition setDate :: "host \<Rightarrow> int option \<Rightarrow> int option \<Rightarrow> int option" where
  "setDate h d dt =
     (case (d, dt) of
        (Some t, Some n) \<Rightarrow>
          (let lt = LocalTime h t
           in TimeClip (UTC h (MakeDate (MakeDay (YearFromTime lt) (MonthFromTime lt) n)
                                 (TimeWithinDay lt))))
      | _ \<Rightarrow> None)"

definition setMonth :: "host \<Rightarrow> int option \<Rightarrow> int option \<Rightarrow> int option" where
  "setMonth h d m =
     (case (d, m) of
        (Some t, Some n) \<Rightarrow>
          (let lt = LocalTime h t
           in TimeClip (UTC h (MakeDate (MakeDay (YearFromTime lt) n (DateFromTime lt))
                                 (TimeWithinDay lt))))
      | _ \<Rightarrow> None)"

definition setFullYear :: "host \<Rightarrow> int option \<Rightarrow> int option \<Rightarrow> int option" where
  "setFullYear h d y =
     (case (d, y) of
        (Some t, Some n) \<Rightarrow>
          (let lt = LocalTime h t
           in TimeClip (UTC h (MakeDate (MakeDay n (MonthFromTime lt) (DateFromTime lt))
                                 (TimeWithinDay lt))))
      | _ \<Rightarrow> None)"

definition setHours :: "host \<Rightarrow> int option \<Rightarrow> int \<Rightarrow> int \<Rightarrow> int \<Rightarrow> int \<Rightarrow> int option" where
  "setHours h d hh mm ss ms =
     (case d of
        Some t \<Rightarrow> TimeClip (UTC h (MakeDate (Day (LocalTime h t)) (MakeTime hh mm ss ms)))
      | None \<Rightarrow> None)"

text \<open>Sum of two numbers, \<^verbatim>\<open>NaN\<close> if either is.\<close>

definition addN :: "int option \<Rightarrow> int option \<Rightarrow> int option" where
  "addN a b = (case (a, b) of (Some x, Some y) \<Rightarrow> Some (x + y) | _ \<Rightarrow> None)"

text \<open>
  The one exception the engine can raise: \<^verbatim>\<open>toISOString\<close> on an invalid Date throws a
  \<^verbatim>\<open>RangeError\<close>.
\<close>

datatype error = RangeError

definition isoYear :: "int \<Rightarrow> string" where
  "isoYear y =
     (if 0 \<le> y \<and> y \<le> 9999 then pad 4 y
      else (if y < 0 then ''-'' else ''+'') @ pad 6 \<bar>y\<bar>)"

definition isoOfTime :: "int \<Rightarrow> string" where
  "isoOfTime t =
     isoYear (YearFromTime t) @ ''-'' @ pad 2 (MonthFromTime t + 1) @ ''-'' @
     pad 2 (DateFromTime t) @ ''T'' @ pad 2 (HourFromTime t) @ '':'' @
     pad 2 (MinFromTime t) @ '':'' @ pad 2 (SecFromTime t) @ ''.'' @
     pad 3 (msFromTime t) @ ''Z''"

definition toISOString :: "int option \<Rightarrow> error + string" where
  "toISOString d = (case d of None \<Rightarrow> Inl RangeError | Some t \<Rightarrow> Inr (isoOfTime t))"

text \<open>\<^verbatim>\<open>s.replace(/\.\d{3}Z$/, 'Z')\<close>\<close>

definition stripMillis :: "string \<Rightarrow> string" where
  "stripMillis s =
     (let n = length s
      in if 5 \<le> n \<and> substr s (n - 5) 1 = ''.'' \<and> allDigits (substr s (n - 4) 3) \<and>
            substr s (n - 1) 1 = ''Z''
         then take (n - 5) s @ ''Z'' else s)"

text \<open>\<^verbatim>\<open>d.toISOString().replace(/\.\d{3}Z$/, 'Z')\<close> and \<^verbatim>\<open>d.toISOString().split('T')[0]\<close>\<close>

definition isoInstant :: "int option \<Rightarrow> error + string" where
  "isoInstant d = map_sum id stripMillis (toISOString d)"

definition isoDay :: "int option \<Rightarrow> error + string" where
  "isoDay d = map_sum id (splitHead (CHR ''T'')) (toISOString d)"

section \<open>Date/Timezone Normalizer: formatDateToISO\<close>

text \<open>
  The input patterns \<^verbatim>\<open>/^\d{8}T\d{6}Z$/\<close>, \<^verbatim>\<open>/^\d{8}T\d{6}$/\<close>, \<^verbatim>\<open>/^\d{8}$/\<close> and the
  zone pattern \<^verbatim>\<open>/^GMT[+-]\d{4}$/\<close>.
\<close>

definition matchCompactUTC :: "string \<Rightarrow> bool" where
  "matchCompactUTC s =
     (length s = 16 \<and> allDigits (substr s 0 8) \<and> substr s 8 1 = ''T'' \<and>
      allDigits (substr s 9 6) \<and> substr s 15 1 = ''Z'')"

definition matchCompactLocal :: "string \<Rightarrow> bool" where
  "matchCompactLocal s =
     (length s = 15 \<and> allDigits (substr s 0 8) \<and> substr s 8 1 = ''T'' \<and>
      allDigits (substr s 9 6))"

definition matchDateOnly :: "string \<Rightarrow> bool" where
  "matchDateOnly s = (length s = 8 \<and> allDigits s)"

definition matchGMT :: "string \<Rightarrow> bool" where
  "matchGMT z =
     (length z = 8 \<and> substr z 0 3 = ''GMT'' \<and>
      (substr z 3 1 = ''+'' \<or> substr z 3 1 = ''-'') \<and> allDigits (substr z 4 4))"

text \<open>The template strings \<^verbatim>\<open>`${year}-${month}-${day}`\<close> and \<^verbatim>\<open>`${hour}:${minute}:${second}`\<close>.\<close>

definition dashedDate :: "string \<Rightarrow> string" where
  "dashedDate ds = substr ds 0 4 @ ''-'' @ substr ds 4 2 @ ''-'' @ substr ds 6 2"

definition colonTime :: "string \<Rightarrow> string" where
  "colonTime ds = substr ds 9 2 @ '':'' @ substr ds 11 2 @ '':'' @ substr ds 13 2"

text \<open>
  The body of the \<^verbatim>\<open>try\<close> block of \<^verbatim>\<open>formatDateToISO\<close>, for a non-empty zone string: a
  fixed offset \<^verbatim>\<open>GMT+hhmm\<close> is subtracted; any other zone string goes to the host's
  named-zone conversion. \<open>Inl\<close> is the exception that the \<^verbatim>\<open>catch\<close> swallows.
\<close>

definition zoneToUTC :: "host \<Rightarrow> string \<Rightarrow> string \<Rightarrow> error + string" where
  "zoneToUTC h isoString timezone =
     (if matchGMT timezone then
        (let sign = (if substr timezone 3 1 = ''+'' then 1 else - 1);
             hours = parseInt (substr timezone 4 2);
             minutes = parseInt (substr timezone 6 2);
             offsetMinutes = (case (hours, minutes) of
                 (Some hh, Some mm) \<Rightarrow> Some (sign * (hh * 60 + mm))
               | _ \<Rightarrow> None);
             date = newDate h isoString;
             utcDate = (case (date, offsetMinutes) of
                 (Some t, Some m) \<Rightarrow> TimeClip (t - m * 60 * 1000)
               | _ \<Rightarrow> None)
         in isoInstant utcDate)
      else
        (let date = newDate h isoString;
             offsetMs = Option.bind date (zone_shift h timezone);
             correctedDate = Option.bind (addN date offsetMs) TimeClip
         in isoInstant correctedDate))"

text \<open>
  \<^verbatim>\<open>formatDateToISO(dateString, timezone)\<close>; \<open>None\<close> is \<^verbatim>\<open>undefined\<close>. The only
  exception that escapes is the \<^verbatim>\<open>RangeError\<close> of the end-of-day branch, which is outside
  the \<^verbatim>\<open>try\<close>.
\<close>

definition formatDateToISO :: "host \<Rightarrow> string option \<Rightarrow> string option \<Rightarrow> error + string" where
  "formatDateToISO h dateString timezone =
     (case dateString of
        None \<Rightarrow> Inr []
      | Some ds \<Rightarrow>
          if ds = [] then Inr []
          else if matchCompactUTC ds then Inr (dashedDate ds @ ''T'' @ colonTime ds @ ''Z'')
          else if matchCompactLocal ds then
            (let isoString = dashedDate ds @ ''T'' @ colonTime ds
             in case timezone of
                  None \<Rightarrow> Inr isoString
                | Some tz \<Rightarrow>
                    if tz = [] then Inr isoString
                    else (case zoneToUTC h isoString tz of
                            Inr r \<Rightarrow> Inr r
                          | Inl e \<Rightarrow> Inr isoString))
          else if matchDateOnly ds then
            (let dateOnly = dashedDate ds
             in if timezone = Some ''FULL_DAY_END''
                then (let date = newDate h dateOnly;
                          date' = setDate h date (addN (getDate h date) (Some (- 1)))
                      in isoDay date')
                else Inr dateOnly)
          else Inr ds)"



text \<open>The text of a feed from its lines, each ended by a line feed.\<close>

definition feed :: "string list \<Rightarrow> string" where
  "feed ls = concat (map (\<lambda>l. l @ [LF]) ls)"

text \<open>A host running in UTC that knows no named zone and parses no other date format.\<close>

definition utc_host :: host where
  "utc_host = \<lparr>tza = 0, legacy_parse = (\<lambda>s. None), zone_shift = (\<lambda>z t. None),
                now = 1704067200000\<rparr>"

section \<open>Text Sanitizer: unescapeICS\<close>

text \<open>
  \<^verbatim>\<open>unescapeICS(str)\<close>: eight global replacements in the order of the source, the escaped
  backslash last. A falsy argument (\<^verbatim>\<open>undefined\<close> or the empty string) gives the empty
  string; callers pass \<open>None\<close> for \<^verbatim>\<open>undefined\<close>.
\<close>

definition unescapeICS :: "string \<Rightarrow> string" where
  "unescapeICS str =
     (if str = [] then []
      else replaceAll [backslash, backslash] [backslash]
          (replaceAll [backslash, dquote] [dquote]
          (replaceAll [backslash, CHR '';''] [CHR '';'']
          (replaceAll [backslash, CHR '',''] [CHR '','']
          (replaceAll [backslash, CHR ''t''] [TAB]
          (replaceAll [backslash, CHR ''r''] [CR]
          (replaceAll [backslash, CHR ''N''] [LF]
          (replaceAll [backslash, CHR ''n''] [LF] str))))))))"

text \<open>\<^verbatim>\<open>s.replace(/\s+/g, ' ')\<close>: every maximal run of white space becomes one space.\<close>

function collapseSpaces :: "string \<Rightarrow> string" where
  "collapseSpaces [] = []"
| "collapseSpaces (c # cs) =
     (if isSpace c then CHR '' '' # collapseSpaces (dropWhile isSpace cs)
      else c # collapseSpaces cs)"
  by pat_completeness auto
termination
  by (relation "measure length") (auto simp: length_dropWhile_le less_Suc_eq_le)

text \<open>
  \<^verbatim>\<open>s.replace(/,\s*,/g, ',')\<close>: a comma, optional white space and a second comma become
  one comma; the scan goes on after the second comma.
\<close>

function dedupCommas :: "string \<Rightarrow> string" where
  "dedupCommas [] = []"
| "dedupCommas (c # cs) =
     (if c = CHR '','' \<and> startsWith (dropWhile isSpace cs) '',''
      then CHR '','' # dedupCommas (drop 1 (dropWhile isSpace cs))
      else c # dedupCommas cs)"
  by pat_completeness auto
termination
  by (relation "measure length")
     (auto simp: less_Suc_eq_le intro: le_trans [OF diff_le_self length_dropWhile_le])

text \<open>\<^verbatim>\<open>cleanString(str)\<close> and \<^verbatim>\<open>cleanAddress(str)\<close>; \<open>None\<close> is \<^verbatim>\<open>undefined\<close>.\<close>

definition cleanString :: "string option \<Rightarrow> string" where
  "cleanString str =
     (case str of
        None \<Rightarrow> []
      | Some s \<Rightarrow>
          if s = [] then []
          else trim (collapseSpaces (replaceAll [CR] '' '' (replaceAll [LF] '' '' (unescapeICS s)))))"

definition cleanAddress :: "string option \<Rightarrow> string" where
  "cleanAddress str =
     (case str of
        None \<Rightarrow> []
      | Some s \<Rightarrow>
          if s = [] then []
          else trim (collapseSpaces (dedupCommas
                 (replaceAll [CR] '', '' (replaceAll [LF] '', '' (unescapeICS s))))))"

section \<open>Line Unfolder and Property Grouper\<close>

text \<open>
  A raw event is the object that \<^verbatim>\<open>parseEventProperty\<close> fills: the keys \<^verbatim>\<open>EXDATE\<close>,
  \<^verbatim>\<open>RDATE\<close> and \<^verbatim>\<open>EXRULE\<close> hold arrays (\<open>multi\<close>), every other key holds a string
  (\<open>props\<close>); the two key sets are disjoint, since a full key with parameters contains
  a semicolon. An absent key is \<^verbatim>\<open>undefined\<close>.
\<close>

record raw_event =
  props :: "string \<rightharpoonup> string"
  multi :: "string \<rightharpoonup> string list"

record event_data =
  event :: raw_event
  timezones :: "string \<rightharpoonup> string"
  lines :: "string list"

definition emptyEvent :: raw_event where
  "emptyEvent = \<lparr>props = Map.empty, multi = Map.empty\<rparr>"

text \<open>Truthiness of a string-valued property, and \<^verbatim>\<open>a || b\<close> on such values.\<close>

definition truthy :: "string option \<Rightarrow> bool" where
  "truthy v = (case v of None \<Rightarrow> False | Some s \<Rightarrow> s \<noteq> [])"

definition orElse :: "string option \<Rightarrow> string option \<Rightarrow> string option" where
  "orElse a b = (if truthy a then a else b)"

text \<open>\<^verbatim>\<open>unfoldICSLines(icsData)\<close>: the state of the \<^verbatim>\<open>forEach\<close> is the list of finished
  lines and \<^verbatim>\<open>currentLine\<close>.\<close>

definition unfoldStep :: "string list \<times> string \<Rightarrow> string \<Rightarrow> string list \<times> string" where
  "unfoldStep st line =
     (case st of (unfoldedLines, currentLine) \<Rightarrow>
        if startsWith line '' '' \<or> startsWith line [TAB]
        then (unfoldedLines, currentLine @ drop 1 line)
        else ((if currentLine \<noteq> [] then unfoldedLines @ [currentLine] else unfoldedLines),
              trim line))"

definition unfoldICSLines :: "string \<Rightarrow> string list" where
  "unfoldICSLines icsData =
     (case foldl unfoldStep ([], []) (splitOn LF icsData) of
        (unfoldedLines, currentLine) \<Rightarrow>
          if currentLine \<noteq> [] then unfoldedLines @ [currentLine] else unfoldedLines)"

text \<open>\<^verbatim>\<open>s.indexOf(c)\<close>, \<open>None\<close> for \<open>-1\<close>; \<^verbatim>\<open>s.includes(p)\<close>.\<close>

definition indexOf :: "char \<Rightarrow> string \<Rightarrow> nat option" where
  "indexOf c s = (if c \<in> set s then Some (length (takeWhile (\<lambda>x. x \<noteq> c) s)) else None)"

fun includesStr :: "string \<Rightarrow> string \<Rightarrow> bool" where
  "includesStr [] p = (p = [])"
| "includesStr (c # cs) p = (startsWith (c # cs) p \<or> includesStr cs p)"

text \<open>
  \<^verbatim>\<open>key.match(/TZID=([^:;]+)/)\<close>: the capture group of the leftmost match, \<open>None\<close>
  when there is none.
\<close>

fun tzidMatch :: "string \<Rightarrow> string option" where
  "tzidMatch [] = None"
| "tzidMatch (c # cs) =
     (let cap = takeWhile (\<lambda>x. x \<noteq> CHR '':'' \<and> x \<noteq> CHR '';'') (drop 5 (c # cs))
      in if startsWith (c # cs) ''TZID='' \<and> cap \<noteq> [] then Some cap else tzidMatch cs)"

text \<open>\<^verbatim>\<open>parseEventProperty(line, currentEvent, currentTimezones)\<close>, returning the two
  objects it mutates.\<close>

definition parseEventProperty ::
  "string \<Rightarrow> raw_event \<Rightarrow> (string \<rightharpoonup> string) \<Rightarrow> raw_event \<times> (string \<rightharpoonup> string)" where
  "parseEventProperty line currentEvent currentTimezones =
     (case indexOf (CHR '':'') line of
        None \<Rightarrow> (currentEvent, currentTimezones)
      | Some colonIndex \<Rightarrow>
          if colonIndex = 0 then (currentEvent, currentTimezones)
          else
            (let key = trim (take colonIndex line);
                 val = trim (drop (colonIndex + 1) line);
                 baseKey = splitHead (CHR '';'') key;
                 ev = (if baseKey \<in> set [''EXDATE'', ''RDATE'', ''EXRULE'']
                       then currentEvent\<lparr>multi := (multi currentEvent)
                              (baseKey \<mapsto> (case multi currentEvent baseKey of
                                              None \<Rightarrow> [] | Some vs \<Rightarrow> vs) @ [val])\<rparr>
                       else if key \<noteq> baseKey
                         then currentEvent\<lparr>props := (props currentEvent)(baseKey \<mapsto> val, key \<mapsto> val)\<rparr>
                         else currentEvent\<lparr>props := (props currentEvent)(baseKey \<mapsto> val)\<rparr>);
                 tzs = (if includesStr key ''TZID=''
                        then (case tzidMatch key of
                                None \<Rightarrow> currentTimezones
                              | Some tz \<Rightarrow>
                                  if baseKey = ''EXDATE''
                                  then currentTimezones(baseKey \<mapsto> tz, ''EXDATE'' \<mapsto> tz)
                                  else currentTimezones(baseKey \<mapsto> tz))
                        else currentTimezones)
             in (ev, tzs)))"

text \<open>
  \<^verbatim>\<open>parseEventsFromLines(unfoldedLines)\<close>: the variables that the \<^verbatim>\<open>forEach\<close> body
  updates, one step per logical line. \<^verbatim>\<open>currentEvent\<close> is \<open>None\<close> for \<^verbatim>\<open>null\<close>.
\<close>

record grouper =
  recurrenceExceptions :: "string \<rightharpoonup> event_data list"
  mainEvents :: "event_data list"
  currentEvent :: "raw_event option"
  currentTimezones :: "string \<rightharpoonup> string"
  currentEventLines :: "string list"

definition grouperInit :: grouper where
  "grouperInit = \<lparr>recurrenceExceptions = Map.empty, mainEvents = [], currentEvent = None,
                   currentTimezones = Map.empty, currentEventLines = []\<rparr>"

definition groupStep :: "grouper \<Rightarrow> string \<Rightarrow> grouper" where
  "groupStep g line =
     (if startsWith line ''BEGIN:VEVENT''
      then g\<lparr>currentEvent := Some emptyEvent, currentTimezones := Map.empty,
             currentEventLines := [line]\<rparr>
      else if startsWith line ''END:VEVENT''
      then (case currentEvent g of
              None \<Rightarrow> g\<lparr>currentEventLines := currentEventLines g @ [line]\<rparr>
            | Some ev \<Rightarrow>
                (let eventData = \<lparr>event = ev, timezones = currentTimezones g,
                                   lines = currentEventLines g @ [line]\<rparr>;
                     g' = (if truthy (props ev ''RECURRENCE-ID'')
                           then (case props ev ''UID'' of
                                   None \<Rightarrow> g
                                 | Some uid \<Rightarrow>
                                     if uid = [] then g
                                     else g\<lparr>recurrenceExceptions := (recurrenceExceptions g)
                                            (uid \<mapsto> (case recurrenceExceptions g uid of
                                                        None \<Rightarrow> [] | Some xs \<Rightarrow> xs) @ [eventData])\<rparr>)
                           else g\<lparr>mainEvents := mainEvents g @ [eventData]\<rparr>)
                 in g'\<lparr>currentEvent := None, currentTimezones := Map.empty,
                        currentEventLines := []\<rparr>))
      else (case currentEvent g of
              None \<Rightarrow> g
            | Some ev \<Rightarrow>
                (case parseEventProperty line ev (currentTimezones g) of
                   (ev', tzs') \<Rightarrow>
                     g\<lparr>currentEvent := Some ev', currentTimezones := tzs',
                        currentEventLines := currentEventLines g @ [line]\<rparr>)))"

definition parseEventsFromLines :: "string list \<Rightarrow> grouper" where
  "parseEventsFromLines unfoldedLines = foldl groupStep grouperInit unfoldedLines"

section \<open>Deletion Classifier: isEventDeleted\<close>

text \<open>\<^verbatim>\<open>s.toUpperCase()\<close> on ASCII letters.\<close>

definition toUpperChar :: "char \<Rightarrow> char" where
  "toUpperChar c =
     (case map_of (zip ''abcdefghijklmnopqrstuvwxyz'' ''ABCDEFGHIJKLMNOPQRSTUVWXYZ'') c of
        None \<Rightarrow> c | Some u \<Rightarrow> u)"

definition toUpperCase :: "string \<Rightarrow> string" where
  "toUpperCase s = map toUpperChar s"

text \<open>
  \<^verbatim>\<open>isEventDeleted(event)\<close>. The \<^verbatim>\<open>TRANSP\<close> test of the source has an empty body and
  changes nothing.
\<close>

definition isEventDeleted :: "raw_event \<Rightarrow> bool" where
  "isEventDeleted ev =
     (if truthy (props ev ''STATUS'') \<and>
         map_option toUpperCase (props ev ''STATUS'') = Some ''CANCELLED'' then True
      else if truthy (props ev ''METHOD'') \<and>
         map_option toUpperCase (props ev ''METHOD'') = Some ''CANCEL'' then True
      else if truthy (props ev ''SEQUENCE'') \<and>
         (case Option.bind (props ev ''SEQUENCE'') parseInt of None \<Rightarrow> False | Some n \<Rightarrow> 100 < n)
        then True
      else if truthy (props ev ''X-APPLE-DELETED-DATE'') \<or> truthy (props ev ''X-APPLE-DELETED'')
        then True
      else if truthy (props ev ''X-GOOGLE-DELETED'') \<or> props ev ''STATUS'' = Some ''DELETED''
        then True
      else if \<not> truthy (props ev ''DTSTART'') \<and> \<not> truthy (props ev ''SUMMARY'') then True
      else False)"

section \<open>Occurrences\<close>

text \<open>
  An output record is an object with a subset of the fields \<^verbatim>\<open>start\<close>, \<^verbatim>\<open>end\<close>,
  \<^verbatim>\<open>title\<close>, \<^verbatim>\<open>description\<close>, \<^verbatim>\<open>address\<close>; \<open>None\<close> is an omitted field.
\<close>

record occurrence =
  start :: "string option"
  end' :: "string option"
  title :: "string option"
  description :: "string option"
  address :: "string option"

text \<open>\<^verbatim>\<open>if (x) transformedEvent.x = x\<close>: a falsy value leaves the field out.\<close>

definition field :: "string \<Rightarrow> string option" where
  "field x = (if x = [] then None else Some x)"

definition transformedEvent ::
  "string \<Rightarrow> string option \<Rightarrow> string \<Rightarrow> string \<Rightarrow> string \<Rightarrow> occurrence" where
  "transformedEvent st en ti de ad =
     \<lparr>start = field st, end' = Option.bind en field, title = field ti,
      description = field de, address = field ad\<rparr>"

text \<open>Sequencing of computations that may throw.\<close>

definition bindE :: "error + 'a \<Rightarrow> ('a \<Rightarrow> error + 'b) \<Rightarrow> error + 'b" where
  "bindE m f = (case m of Inl e \<Rightarrow> Inl e | Inr x \<Rightarrow> f x)"

text \<open>
  The end of a base event, as \<^verbatim>\<open>createEventFromData\<close> and \<^verbatim>\<open>generateRecurringEvents\<close>
  both compute it: a date-only \<^verbatim>\<open>DTEND\<close> is normalized with the marker
  \<^verbatim>\<open>'FULL_DAY_END'\<close>; \<open>None\<close> is \<^verbatim>\<open>null\<close>.
\<close>

definition baseEnd :: "host \<Rightarrow> raw_event \<Rightarrow> (string \<rightharpoonup> string) \<Rightarrow> error + string option" where
  "baseEnd h ev tzs =
     (if truthy (props ev ''DTEND'')
      then (if matchDateOnly (the (props ev ''DTEND''))
            then map_sum id Some (formatDateToISO h (props ev ''DTEND'') (Some ''FULL_DAY_END''))
            else map_sum id Some (formatDateToISO h (props ev ''DTEND'') (tzs ''DTEND'')))
      else Inr None)"

text \<open>\<^verbatim>\<open>createEventFromData(event, timezones)\<close>; \<open>None\<close> is \<^verbatim>\<open>null\<close>.\<close>

definition createEventFromData ::
  "host \<Rightarrow> raw_event \<Rightarrow> (string \<rightharpoonup> string) \<Rightarrow> error + occurrence option" where
  "createEventFromData h ev tzs =
     bindE (formatDateToISO h (props ev ''DTSTART'') (tzs ''DTSTART'')) (\<lambda>st.
     bindE (baseEnd h ev tzs) (\<lambda>en.
       (let oc = transformedEvent st en (cleanString (props ev ''SUMMARY''))
                   (cleanString (props ev ''DESCRIPTION'')) (cleanAddress (props ev ''LOCATION''))
        in Inr (if truthy (start oc) then Some oc else None))))"

section \<open>Recurrence Expander\<close>

record rrule_params =
  freq :: "string option"
  until :: "string option"
  count :: "int option option"
  interval :: "int option"
  byday :: "string list option"

text \<open>
  \<^verbatim>\<open>parseRRule(rrule)\<close>. \<^verbatim>\<open>count\<close> is \<open>None\<close> for \<^verbatim>\<open>null\<close> and \<open>Some None\<close> for
  \<^verbatim>\<open>NaN\<close>; \<^verbatim>\<open>interval\<close> is \<open>None\<close> for \<^verbatim>\<open>NaN\<close>.
\<close>

definition rruleStep :: "(string \<rightharpoonup> string) \<Rightarrow> string \<Rightarrow> (string \<rightharpoonup> string)" where
  "rruleStep params param =
     (case splitOn (CHR ''='') param of
        key # val # rest \<Rightarrow> if key \<noteq> [] \<and> val \<noteq> [] then params(key \<mapsto> val) else params
      | _ \<Rightarrow> params)"

definition parseRRule :: "string \<Rightarrow> rrule_params" where
  "parseRRule rrule =
     (let params = foldl rruleStep Map.empty (splitOn (CHR '';'') rrule)
      in \<lparr>freq = params ''FREQ'',
          until = params ''UNTIL'',
          count = (if truthy (params ''COUNT'') then Some (Option.bind (params ''COUNT'') parseInt)
                   else None),
          interval = (if truthy (params ''INTERVAL'') then Option.bind (params ''INTERVAL'') parseInt
                      else Some 1),
          byday = (if truthy (params ''BYDAY'')
                   then map_option (splitOn (CHR '','')) (params ''BYDAY'') else None)\<rparr>)"

text \<open>\<^verbatim>\<open>parseExceptionDates(event, timezones)\<close>\<close>

fun formatExdates :: "host \<Rightarrow> string option \<Rightarrow> string list \<Rightarrow> error + string list" where
  "formatExdates h tz [] = Inr []"
| "formatExdates h tz (exdate # rest) =
     bindE (formatDateToISO h (Some exdate) tz) (\<lambda>exdateFormatted.
     bindE (formatExdates h tz rest) (\<lambda>exdates.
       Inr (if exdateFormatted \<noteq> [] then exdateFormatted # exdates else exdates)))"

definition parseExceptionDates ::
  "host \<Rightarrow> raw_event \<Rightarrow> (string \<rightharpoonup> string) \<Rightarrow> error + string list" where
  "parseExceptionDates h ev tzs =
     (case multi ev ''EXDATE'' of
        None \<Rightarrow> Inr []
      | Some xs \<Rightarrow> formatExdates h (orElse (tzs ''EXDATE'') (tzs ''DTSTART'')) xs)"

text \<open>\<^verbatim>\<open>buildExceptionMap(recurrenceExceptions, defaultTimezones)\<close>: a later exception
  with the same normalized \<^verbatim>\<open>RECURRENCE-ID\<close> replaces an earlier one.\<close>

fun buildExceptionMapFrom ::
  "host \<Rightarrow> (string \<rightharpoonup> string) \<Rightarrow> (string \<rightharpoonup> event_data) \<Rightarrow> event_data list
     \<Rightarrow> error + (string \<rightharpoonup> event_data)" where
  "buildExceptionMapFrom h defaultTimezones exceptionMap [] = Inr exceptionMap"
| "buildExceptionMapFrom h defaultTimezones exceptionMap (exception # rest) =
     (if truthy (props (event exception) ''RECURRENCE-ID'')
      then bindE (formatDateToISO h (props (event exception) ''RECURRENCE-ID'')
                    (orElse (timezones exception ''RECURRENCE-ID'') (defaultTimezones ''DTSTART'')))
             (\<lambda>recurrenceIdFormatted.
                buildExceptionMapFrom h defaultTimezones
                  (if recurrenceIdFormatted \<noteq> []
                   then exceptionMap(recurrenceIdFormatted \<mapsto> exception) else exceptionMap)
                  rest)
      else buildExceptionMapFrom h defaultTimezones exceptionMap rest)"

definition buildExceptionMap ::
  "host \<Rightarrow> event_data list \<Rightarrow> (string \<rightharpoonup> string) \<Rightarrow> error + (string \<rightharpoonup> event_data)" where
  "buildExceptionMap h recExceptions defaultTimezones =
     buildExceptionMapFrom h defaultTimezones Map.empty recExceptions"

text \<open>The object \<^verbatim>\<open>eventData\<close> that \<^verbatim>\<open>generateRecurringEvents\<close> hands to the expansion.\<close>

record base_data =
  b_start :: string
  b_end :: "string option"
  b_title :: string
  b_description :: string
  b_address :: string

text \<open>\<^verbatim>\<open>calculateDuration(start, end)\<close>\<close>

definition calculateDuration :: "host \<Rightarrow> string \<Rightarrow> string option \<Rightarrow> int option" where
  "calculateDuration h st en =
     (if \<not> truthy en \<or> st = [] then Some 0
      else addN (newDate h (the en)) (map_option uminus (newDate h st)))"

text \<open>
  \<^verbatim>\<open>setupDateLimits(start, until, count)\<close>. \<^verbatim>\<open>untilDate\<close> is \<open>None\<close> for \<^verbatim>\<open>null\<close> and
  \<open>Some None\<close> for an invalid Date object.
\<close>

definition matchUntilDateTime :: "string \<Rightarrow> bool" where
  "matchUntilDateTime s = (matchCompactLocal s \<or> matchCompactUTC s)"

definition setupDateLimits ::
  "host \<Rightarrow> string \<Rightarrow> string option \<Rightarrow> int option option
     \<Rightarrow> error + (int option \<times> int option option \<times> int)" where
  "setupDateLimits h st untl cnt =
     bindE (if truthy untl
            then (if matchDateOnly (the untl) then Inr (Some (newDate h (dashedDate (the untl))))
                  else if matchUntilDateTime (the untl)
                    then map_sum id (\<lambda>s. Some (newDate h s)) (formatDateToISO h untl None)
                  else Inr None)
            else Inr None)
       (\<lambda>untilDate.
          Inr (newDate h st, untilDate,
               (case cnt of Some (Some c) \<Rightarrow> if c = 0 then 100 else c | _ \<Rightarrow> 100)))"

definition dayMap :: "string \<Rightarrow> int option" where
  "dayMap = map_of [(''SU'', 0), (''MO'', 1), (''TU'', 2), (''WE'', 3), (''TH'', 4),
                    (''FR'', 5), (''SA'', 6)]"

text \<open>\<^verbatim>\<open>dayMap[day] === n\<close>: never true for a missing key or for \<^verbatim>\<open>NaN\<close>.\<close>

definition dayIs :: "int option \<Rightarrow> string \<Rightarrow> bool" where
  "dayIs n day = (case (dayMap day, n) of (Some a, Some b) \<Rightarrow> a = b | _ \<Rightarrow> False)"

text \<open>\<^verbatim>\<open>shouldIncludeDate(currentDate, freq, byday)\<close>\<close>

definition shouldIncludeDate :: "host \<Rightarrow> int option \<Rightarrow> string option \<Rightarrow> string list option \<Rightarrow> bool" where
  "shouldIncludeDate h currentDate frq bydy =
     (case bydy of
        None \<Rightarrow> True
      | Some days \<Rightarrow>
          if frq \<noteq> Some ''WEEKLY'' then True
          else list_ex (dayIs (getDay h currentDate)) days)"

text \<open>\<^verbatim>\<open>isDateExcluded(eventStart, exdates, isAllDayEvent)\<close>\<close>

definition sameMinute :: "host \<Rightarrow> int option \<Rightarrow> int option \<Rightarrow> bool" where
  "sameMinute h a b =
     (case (a, b) of
        (Some x, Some y) \<Rightarrow>
          getFullYear h a = getFullYear h b \<and> getMonth h a = getMonth h b \<and>
          getDate h a = getDate h b \<and> getHours h a = getHours h b \<and>
          getMinutes h a = getMinutes h b
      | _ \<Rightarrow> False)"

definition isDateExcluded :: "host \<Rightarrow> string \<Rightarrow> string list \<Rightarrow> bool \<Rightarrow> bool" where
  "isDateExcluded h eventStart exdates isAllDayEvent =
     list_ex (\<lambda>exdate.
        if isAllDayEvent then splitHead (CHR ''T'') exdate = eventStart
        else sameMinute h (newDate h exdate) (newDate h eventStart)) exdates"

text \<open>\<^verbatim>\<open>createExceptionEvent(exception)\<close>\<close>

definition createExceptionEvent :: "host \<Rightarrow> event_data \<Rightarrow> error + occurrence" where
  "createExceptionEvent h exception =
     (let exceptionEvent = event exception; exceptionTimezones = timezones exception
      in bindE (formatDateToISO h (props exceptionEvent ''DTSTART'') (exceptionTimezones ''DTSTART''))
           (\<lambda>st.
         bindE (if truthy (props exceptionEvent ''DTEND'')
                then map_sum id Some
                       (formatDateToISO h (props exceptionEvent ''DTEND'') (exceptionTimezones ''DTEND''))
                else Inr None)
           (\<lambda>en.
              Inr (transformedEvent st en (cleanString (props exceptionEvent ''SUMMARY''))
                     (cleanString (props exceptionEvent ''DESCRIPTION''))
                     (cleanAddress (props exceptionEvent ''LOCATION''))))))"

text \<open>\<^verbatim>\<open>createNormalEvent(eventStart, eventEnd, eventData)\<close>\<close>

definition createNormalEvent :: "string \<Rightarrow> string option \<Rightarrow> base_data \<Rightarrow> occurrence" where
  "createNormalEvent eventStart eventEnd eventData =
     transformedEvent eventStart eventEnd (b_title eventData) (b_description eventData)
       (b_address eventData)"

text \<open>
  \<^verbatim>\<open>createOccurrence(currentDate, eventData, durationMs, exdates, exceptionMap)\<close>;
  \<open>None\<close> is \<^verbatim>\<open>null\<close>, the dropped occurrence.
\<close>

definition positive :: "int option \<Rightarrow> bool" where
  "positive n = (case n of None \<Rightarrow> False | Some d \<Rightarrow> 0 < d)"

definition createOccurrence ::
  "host \<Rightarrow> int option \<Rightarrow> base_data \<Rightarrow> int option \<Rightarrow> string list \<Rightarrow> (string \<rightharpoonup> event_data)
     \<Rightarrow> error + occurrence option" where
  "createOccurrence h currentDate eventData durationMs exdates exceptionMap =
     (let isAllDayEvent = isDateForm (b_start eventData)
      in bindE (if isAllDayEvent
                then bindE (isoDay currentDate) (\<lambda>eventStart.
                     bindE (if truthy (b_end eventData)
                            then map_sum id Some
                                   (isoDay (if positive durationMs
                                            then Option.bind (addN currentDate durationMs) TimeClip
                                            else currentDate))
                            else Inr None)
                       (\<lambda>eventEnd. Inr (eventStart, eventEnd)))
                else bindE (isoInstant currentDate) (\<lambda>eventStart.
                     bindE (if positive durationMs
                            then map_sum id Some
                                   (isoInstant (Option.bind (addN currentDate durationMs) TimeClip))
                            else Inr None)
                       (\<lambda>eventEnd. Inr (eventStart, eventEnd))))
           (\<lambda>(eventStart, eventEnd).
              if isDateExcluded h eventStart exdates isAllDayEvent then Inr None
              else (case exceptionMap eventStart of
                      Some exception \<Rightarrow> map_sum id Some (createExceptionEvent h exception)
                    | None \<Rightarrow> Inr (Some (createNormalEvent eventStart eventEnd eventData)))))"

text \<open>\<^verbatim>\<open>a * b\<close> and \<^verbatim>\<open>a % 7\<close> on numbers that may be \<^verbatim>\<open>NaN\<close> (the dividend is never
  negative where the engine takes the remainder).\<close>

definition mulN :: "int \<Rightarrow> int option \<Rightarrow> int option" where
  "mulN a b = map_option (\<lambda>x. a * x) b"

definition mod7 :: "int option \<Rightarrow> int option" where
  "mod7 a = map_option (\<lambda>x. x mod 7) a"

text \<open>
  The \<^verbatim>\<open>while\<close> loop of \<^verbatim>\<open>advanceToNextWeeklyDay\<close>: the first \<^verbatim>\<open>daysToAdd\<close> up to
  \<open>limit\<close> whose weekday is listed, \<open>None\<close> when the loop runs out.
\<close>

function nextWeeklyDay :: "int \<Rightarrow> int \<Rightarrow> int option \<Rightarrow> string list \<Rightarrow> int option" where
  "nextWeeklyDay daysToAdd limit nextDayOfWeek days =
     (if daysToAdd \<le> limit
      then (if list_ex (dayIs nextDayOfWeek) days then Some daysToAdd
            else nextWeeklyDay (daysToAdd + 1) limit (mod7 (addN nextDayOfWeek (Some 1))) days)
      else None)"
  by pat_completeness auto
termination
  by (relation "measure (\<lambda>(daysToAdd, limit, n, days). nat (limit + 1 - daysToAdd))") auto

declare nextWeeklyDay.simps [simp del]

text \<open>\<^verbatim>\<open>advanceToNextWeeklyDay(currentDate, byday, interval)\<close>, returning the new time
  value of \<^verbatim>\<open>currentDate\<close>.\<close>

definition advanceToNextWeeklyDay :: "host \<Rightarrow> int option \<Rightarrow> string list \<Rightarrow> int option \<Rightarrow> int option" where
  "advanceToNextWeeklyDay h currentDate days intervl =
     (case Option.bind intervl (\<lambda>i.
             nextWeeklyDay 1 (7 * i) (mod7 (addN (getDay h currentDate) (Some 1))) days) of
        Some daysToAdd \<Rightarrow> setDate h currentDate (addN (getDate h currentDate) (Some daysToAdd))
      | None \<Rightarrow>
          (let d1 = setDate h currentDate (addN (getDate h currentDate) (mulN 7 intervl));
               targetDay = dayMap (hd days);
               currentDay = getDay h d1;
               daysUntilTarget = mod7 (addN (addN targetDay (map_option uminus currentDay)) (Some 7))
           in setDate h d1 (addN (getDate h d1) daysUntilTarget)))"

text \<open>\<^verbatim>\<open>advanceToNextDate(currentDate, freq, interval, byday)\<close>\<close>

definition advanceToNextDate ::
  "host \<Rightarrow> int option \<Rightarrow> string option \<Rightarrow> int option \<Rightarrow> string list option \<Rightarrow> int option" where
  "advanceToNextDate h currentDate frq intervl bydy =
     (if frq = Some ''YEARLY''
        then setFullYear h currentDate (addN (getFullYear h currentDate) intervl)
      else if frq = Some ''MONTHLY''
        then setMonth h currentDate (addN (getMonth h currentDate) intervl)
      else if frq = Some ''WEEKLY''
        then (case bydy of
                Some days \<Rightarrow>
                  if 1 < length days then advanceToNextWeeklyDay h currentDate days intervl
                  else setDate h currentDate (addN (getDate h currentDate) (mulN 7 intervl))
              | None \<Rightarrow> setDate h currentDate (addN (getDate h currentDate) (mulN 7 intervl)))
      else if frq = Some ''DAILY''
        then setDate h currentDate (addN (getDate h currentDate) intervl)
      else setFullYear h currentDate (addN (getFullYear h currentDate) (Some 10)))"

text \<open>Comparison of two Dates by time value: false when either is invalid.\<close>

definition dateLe :: "int option \<Rightarrow> int option \<Rightarrow> bool" where
  "dateLe a b = (case (a, b) of (Some x, Some y) \<Rightarrow> x \<le> y | _ \<Rightarrow> False)"

definition dateGt :: "int option \<Rightarrow> int option \<Rightarrow> bool" where
  "dateGt a b = (case (a, b) of (Some x, Some y) \<Rightarrow> y < x | _ \<Rightarrow> False)"

text \<open>The forward horizon \<^verbatim>\<open>new Date(Date.now() + 2 * 365 * 24 * 60 * 60 * 1000)\<close>.\<close>

definition horizon :: "host \<Rightarrow> int option" where
  "horizon h = TimeClip (now h + 2 * 365 * 24 * 60 * 60 * 1000)"

text \<open>
  One pass through the body of the \<^verbatim>\<open>while\<close> loop of \<^verbatim>\<open>generateOccurrences\<close>, up to the
  call of \<^verbatim>\<open>advanceToNextDate\<close>: the new \<^verbatim>\<open>events\<close> and \<^verbatim>\<open>occurrenceCount\<close>.
\<close>

definition occurrenceStep ::
  "host \<Rightarrow> base_data \<Rightarrow> rrule_params \<Rightarrow> string list \<Rightarrow> (string \<rightharpoonup> event_data) \<Rightarrow> int option
     \<Rightarrow> int option \<Rightarrow> int \<Rightarrow> occurrence list \<Rightarrow> error + (int \<times> occurrence list)" where
  "occurrenceStep h eventData rruleParams exdates exceptionMap durationMs currentDate
       occurrenceCount events =
     (if shouldIncludeDate h currentDate (freq rruleParams) (byday rruleParams)
      then bindE (createOccurrence h currentDate eventData durationMs exdates exceptionMap)
             (\<lambda>occurrence.
                case occurrence of
                  Some oc \<Rightarrow> Inr (occurrenceCount + 1, events @ [oc])
                | None \<Rightarrow> Inr (occurrenceCount, events))
      else Inr (occurrenceCount, events))"

text \<open>
  The \<^verbatim>\<open>while\<close> loop of \<^verbatim>\<open>generateOccurrences\<close>. It need not terminate (an interval of
  0 never moves the cursor), so the result is \<open>None\<close> when the loop runs forever.
\<close>

partial_function (option) generateLoop ::
  "host \<Rightarrow> base_data \<Rightarrow> rrule_params \<Rightarrow> string list \<Rightarrow> (string \<rightharpoonup> event_data) \<Rightarrow> int option
     \<Rightarrow> int option option \<Rightarrow> int \<Rightarrow> int option \<Rightarrow> int \<Rightarrow> occurrence list
     \<Rightarrow> (error + occurrence list) option" where
  "generateLoop h eventData rruleParams exdates exceptionMap durationMs untilDate maxOccurrences
       currentDate occurrenceCount events =
     (if occurrenceCount < maxOccurrences \<and> dateLe currentDate (horizon h)
      then (if (case untilDate of None \<Rightarrow> False | Some u \<Rightarrow> dateGt currentDate u)
            then Some (Inr events)
            else (case occurrenceStep h eventData rruleParams exdates exceptionMap durationMs
                         currentDate occurrenceCount events of
                    Inl e \<Rightarrow> Some (Inl e)
                  | Inr (occurrenceCount', events') \<Rightarrow>
                      generateLoop h eventData rruleParams exdates exceptionMap durationMs
                        untilDate maxOccurrences
                        (advanceToNextDate h currentDate (freq rruleParams) (interval rruleParams)
                           (byday rruleParams))
                        occurrenceCount' events'))
      else Some (Inr events))"

declare generateLoop.simps [code]

text \<open>\<^verbatim>\<open>generateOccurrences(eventData, rruleParams, exdates, exceptionMap)\<close>\<close>

definition generateOccurrences ::
  "host \<Rightarrow> base_data \<Rightarrow> rrule_params \<Rightarrow> string list \<Rightarrow> (string \<rightharpoonup> event_data)
     \<Rightarrow> (error + occurrence list) option" where
  "generateOccurrences h eventData rruleParams exdates exceptionMap =
     (if \<not> truthy (freq rruleParams) then Some (Inr [])
      else (let durationMs = calculateDuration h (b_start eventData) (b_end eventData)
            in case setupDateLimits h (b_start eventData) (until rruleParams) (count rruleParams) of
                 Inl e \<Rightarrow> Some (Inl e)
               | Inr (currentDate, untilDate, maxOccurrences) \<Rightarrow>
                   generateLoop h eventData rruleParams exdates exceptionMap durationMs untilDate
                     maxOccurrences currentDate 0 []))"

text \<open>\<^verbatim>\<open>generateRecurringEvents(event, timezones, recurrenceExceptions)\<close>\<close>

definition generateRecurringEvents ::
  "host \<Rightarrow> raw_event \<Rightarrow> (string \<rightharpoonup> string) \<Rightarrow> event_data list \<Rightarrow> (error + occurrence list) option" where
  "generateRecurringEvents h ev tzs recExceptions =
     (if \<not> truthy (props ev ''RRULE'') then Some (Inr [])
      else (case bindE (formatDateToISO h (props ev ''DTSTART'') (tzs ''DTSTART'')) (\<lambda>st.
                   if st = [] then Inr None
                   else bindE (baseEnd h ev tzs) (\<lambda>en.
                        bindE (parseExceptionDates h ev tzs) (\<lambda>exdates.
                        bindE (buildExceptionMap h recExceptions tzs) (\<lambda>exceptionMap.
                          Inr (Some (\<lparr>b_start = st, b_end = en,
                                       b_title = cleanString (props ev ''SUMMARY''),
                                       b_description = cleanString (props ev ''DESCRIPTION''),
                                       b_address = cleanAddress (props ev ''LOCATION'')\<rparr>,
                                     exdates, exceptionMap)))))) of
              Inl e \<Rightarrow> Some (Inl e)
            | Inr None \<Rightarrow> Some (Inr [])
            | Inr (Some (eventData, exdates, exceptionMap)) \<Rightarrow>
                generateOccurrences h eventData (parseRRule (the (props ev ''RRULE''))) exdates
                  exceptionMap))"

section \<open>The engine: parseICS\<close>

text \<open>The body of the \<^verbatim>\<open>forEach\<close> over \<^verbatim>\<open>mainEvents\<close>: what one base event adds to
  \<^verbatim>\<open>events\<close>.\<close>

definition mainEventOccurrences ::
  "host \<Rightarrow> (string \<rightharpoonup> event_data list) \<Rightarrow> event_data \<Rightarrow> (error + occurrence list) option" where
  "mainEventOccurrences h recExceptions ed =
     (if isEventDeleted (event ed) then Some (Inr [])
      else if truthy (props (event ed) ''RRULE'')
        then (let exceptions = (case Option.bind (props (event ed) ''UID'') recExceptions of
                                  None \<Rightarrow> [] | Some xs \<Rightarrow> xs)
              in generateRecurringEvents h (event ed) (timezones ed) exceptions)
      else (case createEventFromData h (event ed) (timezones ed) of
              Inl e \<Rightarrow> Some (Inl e)
            | Inr None \<Rightarrow> Some (Inr [])
            | Inr (Some singleEvent) \<Rightarrow> Some (Inr [singleEvent])))"

fun collectEvents ::
  "host \<Rightarrow> (string \<rightharpoonup> event_data list) \<Rightarrow> event_data list \<Rightarrow> (error + occurrence list) option" where
  "collectEvents h recExceptions [] = Some (Inr [])"
| "collectEvents h recExceptions (ed # rest) =
     (case mainEventOccurrences h recExceptions ed of
        None \<Rightarrow> None
      | Some (Inl e) \<Rightarrow> Some (Inl e)
      | Some (Inr evs) \<Rightarrow>
          (case collectEvents h recExceptions rest of
             None \<Rightarrow> None
           | Some (Inl e) \<Rightarrow> Some (Inl e)
           | Some (Inr evs') \<Rightarrow> Some (Inr (evs @ evs'))))"

definition parseICS :: "host \<Rightarrow> string \<Rightarrow> (error + occurrence list) option" where
  "parseICS h icsData =
     (let g = parseEventsFromLines (unfoldICSLines icsData)
      in collectEvents h (recurrenceExceptions g) (mainEvents g))"

section \<open>Result Selector: filterAndSortEvents\<close>

text \<open>\<^verbatim>\<open>yesterday\<close>: the wall clock moved back one local day and set to 23:59:59.999.\<close>

definition yesterdayEnd :: "host \<Rightarrow> int option" where
  "yesterdayEnd h =
     (let nw = TimeClip (now h);
          yesterday = setDate h nw (addN (getDate h nw) (Some (- 1)))
      in setHours h yesterday 23 59 59 999)"

text \<open>\<^verbatim>\<open>new Date(event.start)\<close> and \<^verbatim>\<open>new Date(event.end)\<close>; a missing field gives an
  invalid Date.\<close>

definition dateOf :: "host \<Rightarrow> string option \<Rightarrow> int option" where
  "dateOf h v = Option.bind v (newDate h)"

definition isValidEvent :: "host \<Rightarrow> occurrence \<Rightarrow> bool" where
  "isValidEvent h ev =
     (if \<not> truthy (start ev) then False
      else (let eventEndDate = (if truthy (end' ev) then dateOf h (end' ev) else dateOf h (start ev))
            in dateGt eventEndDate (yesterdayEnd h)))"

text \<open>
  \<^verbatim>\<open>validEvents.sort((a, b) => new Date(a.start) - new Date(b.start))\<close>. The sort is
  stable; a comparator result of \<^verbatim>\<open>NaN\<close> counts as 0. Where the comparator is
  consistent this stable insertion sort gives the order every conforming host gives.
\<close>

definition compareStart :: "host \<Rightarrow> occurrence \<Rightarrow> occurrence \<Rightarrow> int option" where
  "compareStart h a b = addN (dateOf h (start a)) (map_option uminus (dateOf h (start b)))"

fun insertSorted :: "('a \<Rightarrow> 'a \<Rightarrow> int option) \<Rightarrow> 'a \<Rightarrow> 'a list \<Rightarrow> 'a list" where
  "insertSorted cmp x [] = [x]"
| "insertSorted cmp x (y # ys) =
     (if positive (cmp x y) then y # insertSorted cmp x ys else x # y # ys)"

definition sortBy :: "('a \<Rightarrow> 'a \<Rightarrow> int option) \<Rightarrow> 'a list \<Rightarrow> 'a list" where
  "sortBy cmp xs = foldr (insertSorted cmp) xs []"

definition filterAndSortEvents :: "host \<Rightarrow> occurrence list \<Rightarrow> occurrence list" where
  "filterAndSortEvents h events =
     (let validEvents = filter (isValidEvent h) events
      in take 25 (sortBy (compareStart h) validEvents))"

section \<open>The collaborator boundary: main\<close>





section \<open>Notions of the specification\<close>

text \<open>
  The words of the Result Selector's contract: the effective end of an occurrence is its
  end if present (and not empty), else its start; an occurrence is kept when that instant
  is strictly after the cutoff. \<open>startInstant\<close> is the sort key where the start parses.
\<close>

definition spec_effectiveEnd :: "host \<Rightarrow> occurrence \<Rightarrow> int option" where
  "spec_effectiveEnd h ev = (if truthy (end' ev) then dateOf h (end' ev) else dateOf h (start ev))"

definition spec_keeps :: "host \<Rightarrow> occurrence \<Rightarrow> bool" where
  "spec_keeps h ev = dateGt (spec_effectiveEnd h ev) (yesterdayEnd h)"

definition startInstant :: "host \<Rightarrow> occurrence \<Rightarrow> int" where
  "startInstant h ev = the (dateOf h (start ev))"

text \<open>
  The invariant of the data model: no field of an occurrence is present as an empty
  string. An occurrence that can be output carries a start as well.
\<close>

definition wellFormed :: "occurrence \<Rightarrow> bool" where
  "wellFormed oc =
     (start oc \<noteq> Some [] \<and> end' oc \<noteq> Some [] \<and> title oc \<noteq> Some [] \<and>
      description oc \<noteq> Some [] \<and> address oc \<noteq> Some [])"

definition hasStart :: "occurrence \<Rightarrow> bool" where
  "hasStart oc = (case start oc of None \<Rightarrow> False | Some s \<Rightarrow> s \<noteq> [])"








section \<open>Properties of the calendar arithmetic\<close>









lemma MonthFromTime_range: "0 \<le> MonthFromTime t \<and> MonthFromTime t \<le> 11"
  by (simp add: MonthFromTime_def Let_def)


lemma MakeDay_shift:
  "MakeDay (YearFromTime t) (MonthFromTime t) (DateFromTime t + n) = Day t + n"
proof -
  have m: "MonthFromTime t div 12 = 0" "MonthFromTime t mod 12 = MonthFromTime t"
    using MonthFromTime_range [of t] by simp_all
  show ?thesis
    by (simp add: MakeDay_def Let_def m DateFromTime_def DayWithinYear_def)
qed

lemma MakeDate_Day: "MakeDate (Day t + n) (TimeWithinDay t) = t + n * msPerDay"
proof -
  have "t = Day t * msPerDay + TimeWithinDay t"
    by (simp add: Day_def TimeWithinDay_def)
  then show ?thesis by (simp add: MakeDate_def algebra_simps)
qed

lemma setDate_add:
  "setDate h (Some t) (addN (getDate h (Some t)) (Some n)) = TimeClip (t + n * msPerDay)"
  by (simp add: setDate_def getDate_def addN_def Let_def MakeDay_shift MakeDate_Day
        LocalTime_def UTC_def)

lemma Day_shift: "Day (t + n * msPerDay) = Day t + n"
  by (simp add: Day_def msPerDay_def)

lemma Day_bounds: "Day t * msPerDay \<le> t" "t < Day t * msPerDay + msPerDay"
proof -
  have e: "t = Day t * msPerDay + t mod msPerDay" by (simp add: Day_def)
  have "0 \<le> t mod msPerDay" "t mod msPerDay < msPerDay" by (simp_all add: msPerDay_def)
  with e show "Day t * msPerDay \<le> t" "t < Day t * msPerDay + msPerDay" by linarith+
qed


section \<open>Properties of the ISO rendering\<close>










section \<open>Properties of the Normalizer\<close>




















section \<open>Properties of the Result Selector\<close>

lemma yesterdayEnd_eq:
  assumes "0 \<le> now h" "now h \<le> 4102444800000" "\<bar>tza h\<bar> \<le> 86400000"
  shows "yesterdayEnd h = Some (UTC h (MakeDate (Day (LocalTime h (now h))) 0 - 1))"
proof -
  have c1: "TimeClip (now h) = Some (now h)" using assms by (simp add: TimeClip_def)
  have c2: "TimeClip (now h + - 1 * msPerDay) = Some (now h - msPerDay)"
    using assms by (simp add: TimeClip_def msPerDay_def)
  have y: "setDate h (Some (now h)) (addN (getDate h (Some (now h))) (Some (- 1)))
             = Some (now h - msPerDay)"
    unfolding setDate_add c2 ..
  have d: "Day (LocalTime h (now h - msPerDay)) = Day (LocalTime h (now h)) - 1"
    using Day_shift [of "now h + tza h" "- 1"] by (simp add: LocalTime_def algebra_simps)
  define m where "m = Day (LocalTime h (now h)) * msPerDay"
  have b: "m \<le> now h + tza h" "now h + tza h < m + msPerDay"
    unfolding m_def using Day_bounds [of "LocalTime h (now h)"] by (simp_all add: LocalTime_def)
  have v: "UTC h (MakeDate (Day (LocalTime h (now h)) - 1) (MakeTime 23 59 59 999))
             = m - 1 - tza h"
    by (simp add: UTC_def MakeDate_def MakeTime_def m_def msPerDay_def algebra_simps)
  have c3: "TimeClip (m - 1 - tza h) = Some (m - 1 - tza h)"
    using b assms by (simp add: TimeClip_def msPerDay_def)
  have "yesterdayEnd h = Some (m - 1 - tza h)"
    by (simp add: yesterdayEnd_def Let_def c1 y setHours_def d v c3)
  then show ?thesis by (simp add: UTC_def MakeDate_def m_def)
qed

lemma insertSorted_insort:
  assumes "\<forall>e \<in> set (x # ys). dateOf h (start e) \<noteq> None"
  shows "insertSorted (compareStart h) x ys = insort_key (startInstant h) x ys"
  using assms
proof (induction ys)
  case Nil
  then show ?case by simp
next
  case (Cons y ys)
  from Cons.prems obtain a b where
    a: "dateOf h (start x) = Some a" and b: "dateOf h (start y) = Some b" by auto
  have "positive (compareStart h x y) \<longleftrightarrow> \<not> a \<le> b"
    by (auto simp: positive_def compareStart_def addN_def a b)
  with Cons a b show ?case by (simp add: startInstant_def)
qed

lemma sortBy_sort_key:
  assumes "\<forall>e \<in> set xs. dateOf h (start e) \<noteq> None"
  shows "sortBy (compareStart h) xs = sort_key (startInstant h) xs"
  using assms
proof (induction xs)
  case Nil
  then show ?case by (simp add: sortBy_def)
next
  case (Cons x xs)
  then have ih: "sortBy (compareStart h) xs = sort_key (startInstant h) xs" by simp
  have "\<forall>e \<in> set (x # sort_key (startInstant h) xs). dateOf h (start e) \<noteq> None"
    using Cons.prems by simp
  from insertSorted_insort [OF this] ih show ?case
    by (simp add: sortBy_def sort_key_def)
qed

lemma isValidEvent_spec: "isValidEvent h ev \<longleftrightarrow> truthy (start ev) \<and> spec_keeps h ev"
  by (simp add: isValidEvent_def spec_keeps_def spec_effectiveEnd_def Let_def)

text \<open>
  C1 (as the claim states it, refuted). An occurrence with no start whose end lies after
  the cutoff has its effective end after the cutoff, and is not returned.
\<close>

theorem filterAndSortEvents_selects_counterexample:
  "spec_keeps utc_host \<lparr>start = None, end' = Some ''2024-06-01T10:00:00Z'',
      title = Some ''Review'', description = None, address = None\<rparr> \<and>
   filterAndSortEvents utc_host [\<lparr>start = None, end' = Some ''2024-06-01T10:00:00Z'',
      title = Some ''Review'', description = None, address = None\<rparr>] = []"
  by code_simp

text \<open>
  C1 (amended). Among the occurrences that carry a non-empty start,
  \<^verbatim>\<open>filterAndSortEvents\<close> keeps exactly those whose effective end (the end if present, else
  the start) parses to an instant strictly after the cutoff; where every kept start parses
  to an instant, the result is the kept occurrences in ascending order of start instant,
  sorted stably (occurrences with equal starts keep their input order), cut to the first
  25. The cutoff is the last millisecond of the previous local calendar day: one
  millisecond before the local midnight that begins the current day.
\<close>

theorem filterAndSortEvents_selects_sorts_caps:
  assumes "\<forall>ev \<in> set events. truthy (start ev) \<and> spec_keeps h ev \<longrightarrow> dateOf h (start ev) \<noteq> None"
  shows "filterAndSortEvents h events =
           take 25 (sort_key (startInstant h)
             (filter (\<lambda>ev. truthy (start ev) \<and> spec_keeps h ev) events)) \<and>
         sorted (map (startInstant h) (filterAndSortEvents h events)) \<and>
         (\<forall>k. filter (\<lambda>ev. startInstant h ev = k)
                (sort_key (startInstant h) (filter (\<lambda>ev. truthy (start ev) \<and> spec_keeps h ev) events))
              = filter (\<lambda>ev. startInstant h ev = k)
                  (filter (\<lambda>ev. truthy (start ev) \<and> spec_keeps h ev) events)) \<and>
         length (filterAndSortEvents h events) =
           min 25 (length (filter (\<lambda>ev. truthy (start ev) \<and> spec_keeps h ev) events)) \<and>
         (0 \<le> now h \<and> now h \<le> 4102444800000 \<and> \<bar>tza h\<bar> \<le> 86400000 \<longrightarrow>
            yesterdayEnd h = Some (UTC h (MakeDate (Day (LocalTime h (now h))) 0 - 1)))"
proof -
  define kept where "kept = filter (\<lambda>ev. truthy (start ev) \<and> spec_keeps h ev) events"
  have k: "filter (isValidEvent h) events = kept"
    unfolding kept_def by (rule filter_cong) (simp_all add: isValidEvent_spec)
  have v: "\<forall>e \<in> set kept. dateOf h (start e) \<noteq> None"
    using assms by (auto simp: kept_def)
  have r: "filterAndSortEvents h events = take 25 (sort_key (startInstant h) kept)"
    by (simp add: filterAndSortEvents_def Let_def k sortBy_sort_key [OF v])
  have s: "sorted (map (startInstant h) (filterAndSortEvents h events))"
    unfolding r take_map [symmetric] by (intro sorted_wrt_take sorted_sort_key)
  have l: "length (filterAndSortEvents h events) = min 25 (length kept)"
    unfolding r by simp
  show ?thesis
    using r s l yesterdayEnd_eq [of h] unfolding kept_def by (simp add: sort_key_stable)
qed

theorem filterAndSortEvents_selects_sorts_caps_witness:
  "filterAndSortEvents utc_host
     [\<lparr>start = Some ''2024-01-05T09:00:00Z'', end' = None, title = Some ''Dentist'',
        description = None, address = None\<rparr>,
      \<lparr>start = Some ''2023-12-31T09:00:00Z'', end' = Some ''2023-12-31T10:00:00Z'',
        title = Some ''Past'', description = None, address = None\<rparr>,
      \<lparr>start = Some ''2024-01-02T09:00:00Z'', end' = None, title = Some ''Standup'',
        description = None, address = None\<rparr>,
      \<lparr>start = Some ''2023-12-30'', end' = Some ''2024-01-03'', title = Some ''Trip'',
        description = None, address = None\<rparr>]
   = [\<lparr>start = Some ''2023-12-30'', end' = Some ''2024-01-03'', title = Some ''Trip'',
        description = None, address = None\<rparr>,
      \<lparr>start = Some ''2024-01-02T09:00:00Z'', end' = None, title = Some ''Standup'',
        description = None, address = None\<rparr>,
      \<lparr>start = Some ''2024-01-05T09:00:00Z'', end' = None, title = Some ''Dentist'',
        description = None, address = None\<rparr>] \<and>
   yesterdayEnd utc_host = Some 1704067199999"
proof -
  let ?E = "[\<lparr>start = Some ''2024-01-05T09:00:00Z'', end' = None, title = Some ''Dentist'',
                     description = None, address = None\<rparr>,
                   \<lparr>start = Some ''2023-12-31T09:00:00Z'', end' = Some ''2023-12-31T10:00:00Z'',
                     title = Some ''Past'', description = None, address = None\<rparr>,
                   \<lparr>start = Some ''2024-01-02T09:00:00Z'', end' = None, title = Some ''Standup'',
                     description = None, address = None\<rparr>,
                   \<lparr>start = Some ''2023-12-30'', end' = Some ''2024-01-03'', title = Some ''Trip'',
                     description = None, address = None\<rparr>]"
  have hyp: "\<forall>ev \<in> set ?E.
      truthy (start ev) \<and> spec_keeps utc_host ev \<longrightarrow> dateOf utc_host (start ev) \<noteq> None"
    by code_simp
  have rng: "0 \<le> now utc_host \<and> now utc_host \<le> 4102444800000 \<and> \<bar>tza utc_host\<bar> \<le> 86400000"
    by (simp add: utc_host_def)
  have cut: "Some (UTC utc_host (MakeDate (Day (LocalTime utc_host (now utc_host))) 0 - 1))
      = Some 1704067199999"
    by code_simp
  have srt: "take 25 (sort_key (startInstant utc_host)
             (filter (\<lambda>ev. truthy (start ev) \<and> spec_keeps utc_host ev) ?E))
    = [\<lparr>start = Some ''2023-12-30'', end' = Some ''2024-01-03'', title = Some ''Trip'',
        description = None, address = None\<rparr>,
      \<lparr>start = Some ''2024-01-02T09:00:00Z'', end' = None, title = Some ''Standup'',
        description = None, address = None\<rparr>,
      \<lparr>start = Some ''2024-01-05T09:00:00Z'', end' = None, title = Some ''Dentist'',
        description = None, address = None\<rparr>]"
    by code_simp
  from filterAndSortEvents_selects_sorts_caps [OF hyp] rng cut srt
  show ?thesis by simp
qed

section \<open>Properties of the Recurrence Expander\<close>








































section \<open>Properties of the engine\<close>

lemma toUpperCase_nonempty: "toUpperCase s = ''CANCELLED'' \<Longrightarrow> s \<noteq> []"
  by (auto simp: toUpperCase_def)

lemma isEventDeleted_cancelled:
  assumes "props ev ''STATUS'' = Some s" "toUpperCase s = ''CANCELLED''"
  shows "isEventDeleted ev"
  using assms toUpperCase_nonempty [OF assms(2)] by (simp add: isEventDeleted_def truthy_def)

lemma collectEvents_skip:
  assumes "mainEventOccurrences h recEx ed = Some (Inr [])"
  shows "collectEvents h recEx (pre @ ed # post) = collectEvents h recEx (pre @ post)"
proof (induction pre)
  case Nil
  show ?case using assms by (simp split: option.splits sum.splits)
next
  case (Cons x xs)
  then show ?case by (simp split: option.splits sum.splits)
qed

text \<open>
  C6. A base event whose \<^verbatim>\<open>STATUS\<close> is \<^verbatim>\<open>CANCELLED\<close> in any letter case is classified as
  deleted and adds no occurrence to the engine's list, whatever else it carries (a valid
  \<^verbatim>\<open>RRULE\<close> included): the engine's result is the same as without that event.
\<close>

theorem cancelled_base_event_contributes_nothing:
  assumes "props (event ed) ''STATUS'' = Some s" "toUpperCase s = ''CANCELLED''"
  shows "isEventDeleted (event ed) \<and>
         mainEventOccurrences h recEx ed = Some (Inr []) \<and>
         collectEvents h recEx (pre @ ed # post) = collectEvents h recEx (pre @ post)"
proof -
  have d: "isEventDeleted (event ed)" using assms by (rule isEventDeleted_cancelled)
  then have m: "mainEventOccurrences h recEx ed = Some (Inr [])"
    by (simp add: mainEventOccurrences_def)
  from d m collectEvents_skip [OF m] show ?thesis by simp
qed

theorem cancelled_base_event_contributes_nothing_witness:
  "isEventDeleted (event \<lparr>event = \<lparr>props = [''UID'' \<mapsto> ''1'', ''DTSTART'' \<mapsto> ''20240105T090000Z'',
        ''STATUS'' \<mapsto> ''Cancelled'', ''RRULE'' \<mapsto> ''FREQ=DAILY;COUNT=3'',
        ''SUMMARY'' \<mapsto> ''Standup''], multi = Map.empty\<rparr>,
      timezones = Map.empty, lines = []\<rparr>) \<and>
   mainEventOccurrences utc_host Map.empty
     \<lparr>event = \<lparr>props = [''UID'' \<mapsto> ''1'', ''DTSTART'' \<mapsto> ''20240105T090000Z'',
        ''STATUS'' \<mapsto> ''Cancelled'', ''RRULE'' \<mapsto> ''FREQ=DAILY;COUNT=3'',
        ''SUMMARY'' \<mapsto> ''Standup''], multi = Map.empty\<rparr>,
      timezones = Map.empty, lines = []\<rparr> = Some (Inr []) \<and>
   parseICS utc_host (feed [''BEGIN:VEVENT'', ''UID:1'', ''DTSTART:20240105T090000Z'',
      ''STATUS:Cancelled'', ''RRULE:FREQ=DAILY;COUNT=3'', ''SUMMARY:Standup'', ''END:VEVENT'',
      ''BEGIN:VEVENT'', ''UID:2'', ''DTSTART:20240106T100000Z'', ''SUMMARY:Lunch'', ''END:VEVENT''])
     = Some (Inr [\<lparr>start = Some ''2024-01-06T10:00:00Z'', end' = None, title = Some ''Lunch'',
                    description = None, address = None\<rparr>])"
proof -
  let ?ed = "\<lparr>event = \<lparr>props = [''UID'' \<mapsto> ''1'', ''DTSTART'' \<mapsto> ''20240105T090000Z'',
        ''STATUS'' \<mapsto> ''Cancelled'', ''RRULE'' \<mapsto> ''FREQ=DAILY;COUNT=3'',
        ''SUMMARY'' \<mapsto> ''Standup''], multi = Map.empty\<rparr>,
      timezones = Map.empty, lines = []\<rparr>"
  have s: "props (event ?ed) ''STATUS'' = Some ''Cancelled''" by simp
  have u: "toUpperCase ''Cancelled'' = ''CANCELLED''" by code_simp
  have p: "parseICS utc_host (feed [''BEGIN:VEVENT'', ''UID:1'', ''DTSTART:20240105T090000Z'',
      ''STATUS:Cancelled'', ''RRULE:FREQ=DAILY;COUNT=3'', ''SUMMARY:Standup'', ''END:VEVENT'',
      ''BEGIN:VEVENT'', ''UID:2'', ''DTSTART:20240106T100000Z'', ''SUMMARY:Lunch'', ''END:VEVENT''])
     = Some (Inr [\<lparr>start = Some ''2024-01-06T10:00:00Z'', end' = None, title = Some ''Lunch'',
                    description = None, address = None\<rparr>])"
    by code_simp
  from cancelled_base_event_contributes_nothing [OF s u, of utc_host Map.empty "[]" "[]"] p
  show ?thesis by simp
qed

lemma field_not_empty: "field x \<noteq> Some []"
  by (simp add: field_def)

lemma transformedEvent_wf: "wellFormed (transformedEvent st en ti de ad)"
  by (cases en) (simp_all add: wellFormed_def transformedEvent_def field_not_empty)

lemma createNormalEvent_wf: "wellFormed (createNormalEvent es ee ed)"
  by (simp add: createNormalEvent_def transformedEvent_wf)

lemma createExceptionEvent_wf: "createExceptionEvent h exc = Inr oc \<Longrightarrow> wellFormed oc"
  by (auto simp: createExceptionEvent_def Let_def bindE_def transformedEvent_wf
        split: sum.splits if_splits)

lemma createEventFromData_wf: "createEventFromData h ev tzs = Inr (Some oc) \<Longrightarrow> wellFormed oc"
  by (auto simp: createEventFromData_def Let_def bindE_def transformedEvent_wf
        split: sum.splits if_splits)

lemma bindE_Inr: "bindE m f = Inr y \<longleftrightarrow> (\<exists>x. m = Inr x \<and> f x = Inr y)"
  by (cases m) (simp_all add: bindE_def)

lemma map_sum_Some_Inr: "map_sum id Some m = Inr (Some y) \<longleftrightarrow> m = Inr y"
  by (cases m) auto

lemma createOccurrence_wf:
  assumes "createOccurrence h cur ed d exdates emap = Inr (Some oc)"
  shows "wellFormed oc"
proof -
  from assms obtain es ee where
    c: "(if isDateExcluded h es exdates (isDateForm (b_start ed)) then Inr None
         else (case emap es of
                 Some exception \<Rightarrow> map_sum id Some (createExceptionEvent h exception)
               | None \<Rightarrow> Inr (Some (createNormalEvent es ee ed)))) = Inr (Some oc)"
    unfolding createOccurrence_def Let_def bindE_Inr by auto
  show ?thesis
  proof (cases "emap es")
    case None
    with c show ?thesis by (auto simp: createNormalEvent_wf split: if_splits)
  next
    case (Some exc)
    with c have "createExceptionEvent h exc = Inr oc"
      by (auto simp: map_sum_Some_Inr split: if_splits)
    then show ?thesis by (rule createExceptionEvent_wf)
  qed
qed

lemma occurrenceStep_wf:
  assumes "occurrenceStep h ed rp exdates emap d cur c evs = Inr (c', evs')"
    "\<forall>oc \<in> set evs. wellFormed oc"
  shows "\<forall>oc \<in> set evs'. wellFormed oc"
  using assms
  by (auto simp: occurrenceStep_def bindE_def split: if_splits sum.splits option.splits
        dest: createOccurrence_wf)

lemma generateLoop_wf:
  assumes run: "generateLoop h ed rp exdates emap d untilDate mx cur c evs = Some (Inr r)"
    and wf: "\<forall>oc \<in> set evs. wellFormed oc"
  shows "\<forall>oc \<in> set r. wellFormed oc"
proof -
  have "\<forall>r'. (Inr r :: error + occurrence list) = Inr r' \<longrightarrow>
      (\<forall>oc \<in> set evs. wellFormed oc) \<longrightarrow> (\<forall>oc \<in> set r'. wellFormed oc)"
  proof (rule generateLoop.raw_induct [where P = "\<lambda>h ed rp exdates emap d untilDate mx cur c evs y.
      \<forall>r. y = Inr r \<longrightarrow> (\<forall>oc \<in> set evs. wellFormed oc) \<longrightarrow> (\<forall>oc \<in> set r. wellFormed oc)"
      and y = "Inr r", OF _ run], goal_cases)
    case (1 loop h ed rp exdates emap d untilDate mx cur c evs y)
    show ?case
    proof (intro allI impI)
      fix r
      assume y: "y = Inr r" and w: "\<forall>oc \<in> set evs. wellFormed oc"
      show "\<forall>oc \<in> set r. wellFormed oc"
      proof (cases "c < mx \<and> dateLe cur (horizon h) \<and>
          \<not> (case untilDate of None \<Rightarrow> False | Some u \<Rightarrow> dateGt cur u)")
        case False
        with y 1(2) have "r = evs" by (auto split: if_splits)
        with w show ?thesis by simp
      next
        case True
        show ?thesis
        proof (cases "occurrenceStep h ed rp exdates emap d cur c evs")
          case (Inl e)
          with True 1(2) y show ?thesis by simp
        next
          case (Inr p)
          obtain c' evs' where p: "p = (c', evs')" by (cases p)
          from occurrenceStep_wf [OF Inr [unfolded p] w]
          have w': "\<forall>oc \<in> set evs'. wellFormed oc" .
          from True Inr p 1(2)
          have "loop h ed rp exdates emap d untilDate mx
                  (advanceToNextDate h cur (freq rp) (interval rp) (byday rp)) c' evs' = Some y"
            by simp
          from 1(1) [OF this] y w' show ?thesis by blast
        qed
      qed
    qed
  qed
  with wf show ?thesis by blast
qed

lemma generateOccurrences_wf:
  assumes "generateOccurrences h ed rp exdates emap = Some (Inr r)"
  shows "\<forall>oc \<in> set r. wellFormed oc"
proof (cases "truthy (freq rp)")
  case False
  with assms show ?thesis by (simp add: generateOccurrences_def)
next
  case True
  show ?thesis
  proof (cases "setupDateLimits h (b_start ed) (until rp) (count rp)")
    case (Inl e)
    with True assms show ?thesis by (simp add: generateOccurrences_def Let_def)
  next
    case (Inr p)
    obtain cur u mx where p: "p = (cur, u, mx)" by (cases p)
    from True Inr p assms
    have "generateLoop h ed rp exdates emap (calculateDuration h (b_start ed) (b_end ed)) u mx
            cur 0 [] = Some (Inr r)"
      by (simp add: generateOccurrences_def Let_def)
    then show ?thesis by (rule generateLoop_wf) simp
  qed
qed

lemma generateRecurringEvents_wf:
  assumes "generateRecurringEvents h ev tzs excs = Some (Inr r)"
  shows "\<forall>oc \<in> set r. wellFormed oc"
  using assms
  by (auto simp: generateRecurringEvents_def split: if_splits sum.splits option.splits prod.splits
        dest: generateOccurrences_wf)

lemma mainEventOccurrences_wf:
  assumes "mainEventOccurrences h recEx ed = Some (Inr r)"
  shows "\<forall>oc \<in> set r. wellFormed oc"
  using assms
  by (auto simp: mainEventOccurrences_def Let_def split: if_splits sum.splits option.splits
        dest: generateRecurringEvents_wf createEventFromData_wf)

lemma collectEvents_wf:
  "collectEvents h recEx eds = Some (Inr r) \<Longrightarrow> \<forall>oc \<in> set r. wellFormed oc"
proof (induction eds arbitrary: r)
  case Nil
  then show ?case by simp
next
  case (Cons ed eds)
  from Cons.prems obtain a b where
    a: "mainEventOccurrences h recEx ed = Some (Inr a)" and
    b: "collectEvents h recEx eds = Some (Inr b)" and r: "r = a @ b"
    by (auto split: option.splits sum.splits)
  from mainEventOccurrences_wf [OF a] Cons.IH [OF b] r show ?case by auto
qed

lemma parseICS_wf: "parseICS h icsData = Some (Inr r) \<Longrightarrow> \<forall>oc \<in> set r. wellFormed oc"
  unfolding parseICS_def Let_def by (rule collectEvents_wf)

lemma set_insertSorted: "set (insertSorted cmp x ys) = insert x (set ys)"
  by (induction ys) auto

lemma set_sortBy: "set (sortBy cmp xs) = set xs"
  by (induction xs) (simp_all add: sortBy_def set_insertSorted)

lemma filterAndSortEvents_subset:
  "set (filterAndSortEvents h events) \<subseteq> {ev \<in> set events. isValidEvent h ev}"
proof -
  have "set (take 25 (sortBy (compareStart h) (filter (isValidEvent h) events)))
      \<subseteq> set (sortBy (compareStart h) (filter (isValidEvent h) events))"
    by (rule set_take_subset)
  then show ?thesis by (simp add: filterAndSortEvents_def Let_def set_sortBy)
qed

lemma isValidEvent_hasStart: "isValidEvent h ev \<Longrightarrow> hasStart ev"
  by (cases "start ev") (auto simp: isValidEvent_def hasStart_def truthy_def split: if_splits)

text \<open>
  C9. Every record of the engine's final output carries a start, and none of its fields
  is present as an empty string.
\<close>

theorem output_records_well_formed:
  assumes "parseICS h icsData = Some (Inr events)"
  shows "\<forall>oc \<in> set (filterAndSortEvents h events). hasStart oc \<and> wellFormed oc"
  using parseICS_wf [OF assms] filterAndSortEvents_subset [of h events] isValidEvent_hasStart
  by blast

theorem output_records_well_formed_witness:
  "parseICS utc_host (feed [''BEGIN:VEVENT'', ''UID:1'', ''DTSTART:20240105T090000Z'',
      ''RRULE:FREQ=DAILY;COUNT=2'', ''SUMMARY:Standup'', ''DESCRIPTION:'', ''END:VEVENT'',
      ''BEGIN:VEVENT'', ''UID:1'', ''RECURRENCE-ID:20240106T090000Z'', ''SUMMARY:Moved'',
      ''LOCATION:Room 2'', ''END:VEVENT''])
     = Some (Inr [\<lparr>start = Some ''2024-01-05T09:00:00Z'', end' = None, title = Some ''Standup'',
                    description = None, address = None\<rparr>,
                  \<lparr>start = None, end' = None, title = Some ''Moved'',
                    description = None, address = Some ''Room 2''\<rparr>]) \<and>
   filterAndSortEvents utc_host
     [\<lparr>start = Some ''2024-01-05T09:00:00Z'', end' = None, title = Some ''Standup'',
        description = None, address = None\<rparr>,
      \<lparr>start = None, end' = None, title = Some ''Moved'',
        description = None, address = Some ''Room 2''\<rparr>]
     = [\<lparr>start = Some ''2024-01-05T09:00:00Z'', end' = None, title = Some ''Standup'',
          description = None, address = None\<rparr>] \<and>
   hasStart \<lparr>start = Some ''2024-01-05T09:00:00Z'', end' = None, title = Some ''Standup'',
          description = None, address = None\<rparr> \<and>
   wellFormed \<lparr>start = Some ''2024-01-05T09:00:00Z'', end' = None, title = Some ''Standup'',
          description = None, address = None\<rparr>"
proof -
  have p: "parseICS utc_host (feed [''BEGIN:VEVENT'', ''UID:1'', ''DTSTART:20240105T090000Z'',
      ''RRULE:FREQ=DAILY;COUNT=2'', ''SUMMARY:Standup'', ''DESCRIPTION:'', ''END:VEVENT'',
      ''BEGIN:VEVENT'', ''UID:1'', ''RECURRENCE-ID:20240106T090000Z'', ''SUMMARY:Moved'',
      ''LOCATION:Room 2'', ''END:VEVENT''])
     = Some (Inr [\<lparr>start = Some ''2024-01-05T09:00:00Z'', end' = None, title = Some ''Standup'',
                    description = None, address = None\<rparr>,
                  \<lparr>start = None, end' = None, title = Some ''Moved'',
                    description = None, address = Some ''Room 2''\<rparr>])"
    by code_simp
  have f: "filterAndSortEvents utc_host
     [\<lparr>start = Some ''2024-01-05T09:00:00Z'', end' = None, title = Some ''Standup'',
        description = None, address = None\<rparr>,
      \<lparr>start = None, end' = None, title = Some ''Moved'',
        description = None, address = Some ''Room 2''\<rparr>]
     = [\<lparr>start = Some ''2024-01-05T09:00:00Z'', end' = None, title = Some ''Standup'',
          description = None, address = None\<rparr>]"
    by code_simp
  from output_records_well_formed [OF p] show ?thesis unfolding f using p f by simp
qed





text \<open>
  C8 (the code at the failing input). \<^verbatim>\<open>createExceptionEvent\<close> normalizes a date-only
  \<^verbatim>\<open>DTEND\<close> without the end-boundary marker: the exception instance of an all-day
  series with \<^verbatim>\<open>DTEND:20240313\<close> is emitted with end 2024-03-13, where
  \<^verbatim>\<open>createEventFromData\<close> gives the same event data the inclusive end 2024-03-12, as the
  base event's own occurrence gets 2024-03-11 from \<^verbatim>\<open>DTEND:20240312\<close>.
\<close>

theorem exception_end_not_adjusted:
  "createExceptionEvent utc_host
     \<lparr>event = \<lparr>props = [''UID'' \<mapsto> ''1'', ''RECURRENCE-ID'' \<mapsto> ''20240311'',
        ''DTSTART'' \<mapsto> ''20240311'', ''DTEND'' \<mapsto> ''20240313'', ''SUMMARY'' \<mapsto> ''Camp''],
        multi = Map.empty\<rparr>, timezones = Map.empty, lines = []\<rparr>
     = Inr \<lparr>start = Some ''2024-03-11'', end' = Some ''2024-03-13'', title = Some ''Camp'',
            description = None, address = None\<rparr> \<and>
   createEventFromData utc_host
     \<lparr>props = [''UID'' \<mapsto> ''1'', ''RECURRENCE-ID'' \<mapsto> ''20240311'',
        ''DTSTART'' \<mapsto> ''20240311'', ''DTEND'' \<mapsto> ''20240313'', ''SUMMARY'' \<mapsto> ''Camp''],
        multi = Map.empty\<rparr> Map.empty
     = Inr (Some \<lparr>start = Some ''2024-03-11'', end' = Some ''2024-03-12'', title = Some ''Camp'',
            description = None, address = None\<rparr>) \<and>
   parseICS utc_host (feed [''BEGIN:VEVENT'', ''UID:1'', ''DTSTART;VALUE=DATE:20240310'',
      ''DTEND;VALUE=DATE:20240312'', ''RRULE:FREQ=DAILY;COUNT=2'', ''SUMMARY:Camp'', ''END:VEVENT'',
      ''BEGIN:VEVENT'', ''UID:1'', ''RECURRENCE-ID;VALUE=DATE:20240311'',
      ''DTSTART;VALUE=DATE:20240311'', ''DTEND;VALUE=DATE:20240313'', ''SUMMARY:Camp'',
      ''END:VEVENT''])
     = Some (Inr [\<lparr>start = Some ''2024-03-10'', end' = Some ''2024-03-11'', title = Some ''Camp'',
                    description = None, address = None\<rparr>,
                  \<lparr>start = Some ''2024-03-11'', end' = Some ''2024-03-13'', title = Some ''Camp'',
                    description = None, address = None\<rparr>])"
proof (intro conjI)
  show "createExceptionEvent utc_host
     \<lparr>event = \<lparr>props = [''UID'' \<mapsto> ''1'', ''RECURRENCE-ID'' \<mapsto> ''20240311'',
        ''DTSTART'' \<mapsto> ''20240311'', ''DTEND'' \<mapsto> ''20240313'', ''SUMMARY'' \<mapsto> ''Camp''],
        multi = Map.empty\<rparr>, timezones = Map.empty, lines = []\<rparr>
     = Inr \<lparr>start = Some ''2024-03-11'', end' = Some ''2024-03-13'', title = Some ''Camp'',
            description = None, address = None\<rparr>"
    by code_simp
  show "createEventFromData utc_host
     \<lparr>props = [''UID'' \<mapsto> ''1'', ''RECURRENCE-ID'' \<mapsto> ''20240311'',
        ''DTSTART'' \<mapsto> ''20240311'', ''DTEND'' \<mapsto> ''20240313'', ''SUMMARY'' \<mapsto> ''Camp''],
        multi = Map.empty\<rparr> Map.empty
     = Inr (Some \<lparr>start = Some ''2024-03-11'', end' = Some ''2024-03-12'', title = Some ''Camp'',
            description = None, address = None\<rparr>)"
    by code_simp
  show "parseICS utc_host (feed [''BEGIN:VEVENT'', ''UID:1'', ''DTSTART;VALUE=DATE:20240310'',
      ''DTEND;VALUE=DATE:20240312'', ''RRULE:FREQ=DAILY;COUNT=2'', ''SUMMARY:Camp'', ''END:VEVENT'',
      ''BEGIN:VEVENT'', ''UID:1'', ''RECURRENCE-ID;VALUE=DATE:20240311'',
      ''DTSTART;VALUE=DATE:20240311'', ''DTEND;VALUE=DATE:20240313'', ''SUMMARY:Camp'',
      ''END:VEVENT''])
     = Some (Inr [\<lparr>start = Some ''2024-03-10'', end' = Some ''2024-03-11'', title = Some ''Camp'',
                    description = None, address = None\<rparr>,
                  \<lparr>start = Some ''2024-03-11'', end' = Some ''2024-03-13'', title = Some ''Camp'',
                    description = None, address = None\<rparr>])"
    by code_simp
qed

section \<open>Properties of the collaborator boundary\<close>



section \<open>Properties of the Text Sanitizer\<close>






end
